theory Spec2Isabelle
  imports Complex_Main "HOL-Library.Sublist"
begin

section \<open>Data model (models/index.ts)\<close>

text \<open>
  A JavaScript number that carries a measurement (temperature, precipitation, wind speed,
  latency, rate) is modelled by the real it denotes. Comparisons, minima and maxima are
  exact on such numbers; where the source adds, multiplies or divides them (in the metrics)
  the model rounds the exact result to a double, see \<open>fl\<close> below. Identifiers and counters
  are integers (a counter incremented by one is exact below \<open>2 ^ 53\<close>), wall-clock
  instants are milliseconds since the epoch (\<open>int\<close>). Field names that several interfaces
  share (\<open>name\<close>, \<open>userId\<close>, \<open>timestamp\<close>, ...) carry a prefix, since record fields are
  constants of the theory.
\<close>

record Garden =
  gardenId :: string
  userId :: int
  name :: string
  latitude :: real
  longitude :: real

record SensitivityProfile =
  plantType :: string
  maxTemperature :: real
  minTemperature :: real
  maxPrecipitation :: real
  maxWindSpeed :: real

record WeatherData =
  temperature :: real
  temperatureMax :: real
  temperatureMin :: real
  precipitation :: real
  windSpeed :: real
  w_timestamp :: int

record Plant =
  p_id :: int
  user_id :: int
  p_name :: string
  p_type :: string
  planted_at :: string
  p_notes :: string
  created_at :: string

record User =
  u_id :: int
  u_name :: string
  phone_number :: "string option"

datatype AlertType = HIGH_TEMPERATURE | LOW_TEMPERATURE | HEAVY_RAIN | STRONG_WIND

record Alert =
  alertId :: string
  a_gardenId :: string
  a_userId :: int
  gardenName :: string
  a_timestamp :: int
  alertType :: AlertType
  metric :: string
  currentValue :: real
  threshold :: real
  affectedPlantTypes :: "string list"
  affectedPlantNames :: "string list"

text \<open>
  Every \<open>throw\<close> of the modelled services is a value of this type:
  \<^item> \<open>HTTPError status statusText\<close>: \<open>new Error(`HTTP ${status}: ${statusText}`)\<close>;
  \<^item> \<open>FetchFailed msg\<close>: the rejection of \<open>fetch\<close> itself (transport error);
  \<^item> \<open>BodyNotJSON\<close>: the rejection of \<open>response.json()\<close>;
  \<^item> \<open>RetriesFailed\<close>: \<open>new Error("Failed to fetch after all retries")\<close>;
  \<^item> \<open>NoCacheAvailable u\<close>:
    \<open>new Error(`Failed to fetch plants for user ${u} and no cache available`)\<close>;
  \<^item> \<open>DefaultProfileMissing\<close>: \<open>new Error("Default profile not found in loaded profiles")\<close>.
\<close>

datatype error =
    HTTPError int string
  | FetchFailed string
  | BodyNotJSON
  | RetriesFailed
  | NoCacheAvailable int
  | DefaultProfileMissing

section \<open>PlantsService (services/WeatherService.ts, second document)\<close>

subsection \<open>The plant cache\<close>

record CacheEntry =
  plants :: "Plant list"
  ce_timestamp :: int
  lastUpdated :: int

type_synonym PlantCache = "int \<rightharpoonup> CacheEntry"

definition cacheTTL :: int where
  "cacheTTL = 24 * 60 * 60 * 1000"

text \<open>
  \<open>getCachedPlants\<close> reads the clock once (\<open>new Date()\<close>); the instant it reads is the
  argument \<open>now\<close>. \<open>null\<close> is \<open>None\<close>.
\<close>

definition getCachedPlants :: "PlantCache \<Rightarrow> int \<Rightarrow> int \<Rightarrow> Plant list option" where
  "getCachedPlants cache now uid =
     (case cache uid of
        None \<Rightarrow> None
      | Some entry \<Rightarrow>
          (let age = now - lastUpdated entry
           in if age > cacheTTL then None else Some (plants entry)))"

definition setCachedPlants :: "int \<Rightarrow> int \<Rightarrow> Plant list \<Rightarrow> PlantCache \<Rightarrow> PlantCache" where
  "setCachedPlants now uid ps cache =
     cache(uid \<mapsto> \<lparr>plants = ps, ce_timestamp = now, lastUpdated = now\<rparr>)"

subsection \<open>The retry helper\<close>

text \<open>
  The backend is an oracle \<open>net\<close>: \<open>net k\<close> is what the \<open>k\<close>-th call of \<open>fetch(url)\<close>
  within one run of the helper yields (\<open>k\<close> from 0). A response carries its status, its
  status text and the value \<open>response.json()\<close> resolves to (\<open>None\<close> when it rejects).
  What the helper does to the outside world is recorded in a trace of \<open>HttpGet\<close> and
  \<open>Sleep ms\<close> events, in the order they happen.
\<close>

datatype 'a response = Rejected string | Response int string "'a option"

datatype io = HttpGet | Sleep int

text \<open>
  The body of the \<open>try\<close> block of one loop iteration; \<open>response.ok\<close> is a status from
  200 to 299.
\<close>

fun attemptFetch :: "'a response \<Rightarrow> error + 'a" where
  "attemptFetch (Rejected msg) = Inl (FetchFailed msg)"
| "attemptFetch (Response status statusText body) =
     (if \<not> (200 \<le> status \<and> status \<le> 299) then Inl (HTTPError status statusText)
      else case body of None \<Rightarrow> Inl BodyNotJSON | Some data \<Rightarrow> Inr data)"

function fetchLoop ::
  "(int \<Rightarrow> 'a response) \<Rightarrow> int \<Rightarrow> int \<Rightarrow> error option \<Rightarrow> io list \<Rightarrow> (error + 'a) \<times> io list"
where
  "fetchLoop net maxRetries attempt lastError trace =
     (if attempt < maxRetries then
        (case attemptFetch (net attempt) of
           Inr data \<Rightarrow> (Inr data, trace @ [HttpGet])
         | Inl e \<Rightarrow>
             (if attempt < maxRetries - 1
              then fetchLoop net maxRetries (attempt + 1) (Some e)
                     (trace @ [HttpGet, Sleep (2 ^ nat attempt * 1000)])
              else fetchLoop net maxRetries (attempt + 1) (Some e) (trace @ [HttpGet])))
      else (case lastError of Some e \<Rightarrow> (Inl e, trace) | None \<Rightarrow> (Inl RetriesFailed, trace)))"
  by pat_completeness auto
termination
  by (relation "measure (\<lambda>(net, maxRetries, attempt, lastError, trace). nat (maxRetries - attempt))")
     auto

declare fetchLoop.simps [simp del]

definition fetchWithRetry :: "(int \<Rightarrow> 'a response) \<Rightarrow> int \<Rightarrow> (error + 'a) \<times> io list" where
  "fetchWithRetry net maxRetries = fetchLoop net maxRetries 0 None []"

subsection \<open>fetchUserPlants and fetchUser\<close>

text \<open>
  Both callers use the default \<open>maxRetries = 3\<close>. \<open>now\<close> is the instant at which the cache
  is touched after the retry chain has settled (\<open>setCachedPlants\<close> on success,
  \<open>getCachedPlants\<close> in the \<open>catch\<close> block). The optional latency callback and the log lines
  do not influence the result and are left out. The result is the returned value or the
  thrown error, the cache afterwards, and the trace of the retry chain.
\<close>

definition fetchUserPlants ::
  "(int \<Rightarrow> Plant list response) \<Rightarrow> int \<Rightarrow> PlantCache \<Rightarrow> int
     \<Rightarrow> (error + Plant list) \<times> PlantCache \<times> io list"
where
  "fetchUserPlants net now cache uid =
     (case fetchWithRetry net 3 of
        (Inr ps, trace) \<Rightarrow> (Inr ps, setCachedPlants now uid ps cache, trace)
      | (Inl e, trace) \<Rightarrow>
          (case getCachedPlants cache now uid of
             Some cachedPlants \<Rightarrow> (Inr cachedPlants, cache, trace)
           | None \<Rightarrow> (Inl (NoCacheAvailable uid), cache, trace)))"

definition fetchUser :: "(int \<Rightarrow> User response) \<Rightarrow> (error + User) \<times> io list" where
  "fetchUser net = fetchWithRetry net 3"

section \<open>ConfigLoader (unnamed/part_008)\<close>

definition getProfileForPlantType ::
  "string \<Rightarrow> (string \<rightharpoonup> SensitivityProfile) \<Rightarrow> error + SensitivityProfile"
where
  "getProfileForPlantType ptype profiles =
     (case profiles ptype of
        Some profile \<Rightarrow> Inr profile
      | None \<Rightarrow>
          (case profiles ''default'' of
             None \<Rightarrow> Inl DefaultProfileMissing
           | Some defaultProfile \<Rightarrow> Inr defaultProfile))"

section \<open>AlertEngine (unnamed/part_007)\<close>

text \<open>
  \<open>Math.min(...xs)\<close> and \<open>Math.max(...xs)\<close> on the numbers of a list. The source spreads
  only lists it has just checked to be non-empty; on the empty list JavaScript yields
  \<open>Infinity\<close> and \<open>-Infinity\<close>, which are no reals, so the functions are given on
  non-empty lists only.
\<close>

fun Math_min :: "real list \<Rightarrow> real" where
  "Math_min (x # xs) = fold min xs x"

fun Math_max :: "real list \<Rightarrow> real" where
  "Math_max (x # xs) = fold max xs x"

text \<open>
  A JavaScript \<open>Set\<close> of strings keeps its members in insertion order, each once: a list
  without duplicates, \<open>Set.add\<close> appending a member that is not there yet.
\<close>

definition Set_add :: "'a \<Rightarrow> 'a list \<Rightarrow> 'a list" where
  "Set_add x s = (if x \<in> set s then s else s @ [x])"

definition getPlantTypesFromCache :: "PlantCache \<Rightarrow> int \<Rightarrow> int \<Rightarrow> string list" where
  "getPlantTypesFromCache cache now uid =
     (case getCachedPlants cache now uid of
        None \<Rightarrow> []
      | Some ps \<Rightarrow>
          (if length ps = 0 then []
           else fold (\<lambda>plant plantTypes. Set_add (p_type plant) plantTypes) ps []))"

text \<open>
  \<open>checkThresholds\<close> reads the plant cache once, at the instant \<open>now\<close>. Each alert it
  builds calls \<open>generateAlertId()\<close> (a clock reading and a random suffix) and \<open>new Date()\<close>:
  \<open>fresh k\<close> is the pair of identifier and timestamp that the \<open>k\<close>-th alert built in this
  call receives. The four blocks run in the order of the source, each appending to
  \<open>alerts\<close>. The map \<open>profilesByType\<close> of the source is built and never read; it is left out.
\<close>

definition namesOfTypes :: "Plant list \<Rightarrow> string list \<Rightarrow> string list" where
  "namesOfTypes ps affectedTypes =
     map p_name (filter (\<lambda>plant. p_type plant \<in> set affectedTypes) ps)"

definition pushAlert ::
  "(nat \<Rightarrow> string \<times> int) \<Rightarrow> Garden \<Rightarrow> Plant list \<Rightarrow> AlertType \<Rightarrow> string \<Rightarrow> real \<Rightarrow> real
     \<Rightarrow> SensitivityProfile list \<Rightarrow> Alert list \<Rightarrow> Alert list"
where
  "pushAlert fresh garden ps ty m current thr hit alerts =
     alerts @
       [\<lparr>alertId = fst (fresh (length alerts)),
         a_gardenId = gardenId garden,
         a_userId = userId garden,
         gardenName = name garden,
         a_timestamp = snd (fresh (length alerts)),
         alertType = ty,
         metric = m,
         currentValue = current,
         threshold = thr,
         affectedPlantTypes = map plantType hit,
         affectedPlantNames = namesOfTypes ps (map plantType hit)\<rparr>]"

definition checkThresholds ::
  "PlantCache \<Rightarrow> int \<Rightarrow> (nat \<Rightarrow> string \<times> int) \<Rightarrow> WeatherData \<Rightarrow> SensitivityProfile list
     \<Rightarrow> Garden \<Rightarrow> Alert list"
where
  "checkThresholds cache now fresh weather profiles garden =
     (let ps = (case getCachedPlants cache now (userId garden) of None \<Rightarrow> [] | Some l \<Rightarrow> l);
          alerts0 = [];
          highTempProfiles = filter (\<lambda>p. temperature weather > maxTemperature p) profiles;
          alerts1 =
            (if length highTempProfiles > 0
             then pushAlert fresh garden ps HIGH_TEMPERATURE ''temperature''
                    (temperature weather) (Math_min (map maxTemperature highTempProfiles))
                    highTempProfiles alerts0
             else alerts0);
          lowTempProfiles = filter (\<lambda>p. temperature weather < minTemperature p) profiles;
          alerts2 =
            (if length lowTempProfiles > 0
             then pushAlert fresh garden ps LOW_TEMPERATURE ''temperature''
                    (temperature weather) (Math_max (map minTemperature lowTempProfiles))
                    lowTempProfiles alerts1
             else alerts1);
          heavyRainProfiles = filter (\<lambda>p. precipitation weather > maxPrecipitation p) profiles;
          alerts3 =
            (if length heavyRainProfiles > 0
             then pushAlert fresh garden ps HEAVY_RAIN ''precipitation''
                    (precipitation weather) (Math_min (map maxPrecipitation heavyRainProfiles))
                    heavyRainProfiles alerts2
             else alerts2);
          strongWindProfiles = filter (\<lambda>p. windSpeed weather > maxWindSpeed p) profiles;
          alerts4 =
            (if length strongWindProfiles > 0
             then pushAlert fresh garden ps STRONG_WIND ''windSpeed''
                    (windSpeed weather) (Math_min (map maxWindSpeed strongWindProfiles))
                    strongWindProfiles alerts3
             else alerts3)
      in alerts4)"

text \<open>
  The loop of step 3 of \<open>evaluateGarden\<close>: one profile per plant type, in the order of the
  set; a \<open>throw\<close> of \<open>getProfileForPlantType\<close> leaves the loop.
\<close>

fun collectProfiles ::
  "string list \<Rightarrow> (string \<rightharpoonup> SensitivityProfile) \<Rightarrow> SensitivityProfile list
     \<Rightarrow> error + SensitivityProfile list"
where
  "collectProfiles [] sensitivityProfiles profiles = Inr profiles"
| "collectProfiles (t # ts) sensitivityProfiles profiles =
     (case getProfileForPlantType t sensitivityProfiles of
        Inl e \<Rightarrow> Inl e
      | Inr profile \<Rightarrow> collectProfiles ts sensitivityProfiles (profiles @ [profile]))"

text \<open>
  \<open>fetchWeather\<close> is the weather service as the engine sees it: it resolves to a snapshot
  or to \<open>null\<close> and never rejects. The cache is read twice, in \<open>getPlantTypesFromCache\<close> at
  the instant \<open>now1\<close> and in \<open>checkThresholds\<close> at \<open>now2\<close>. The \<open>catch\<close> block turns every
  error into the empty list.
\<close>

definition evaluateGarden ::
  "(real \<Rightarrow> real \<Rightarrow> WeatherData option) \<Rightarrow> PlantCache \<Rightarrow> int \<Rightarrow> int \<Rightarrow> (nat \<Rightarrow> string \<times> int)
     \<Rightarrow> (string \<rightharpoonup> SensitivityProfile) \<Rightarrow> Garden \<Rightarrow> Alert list"
where
  "evaluateGarden fetchWeather cache now1 now2 fresh sensitivityProfiles garden =
     (case fetchWeather (latitude garden) (longitude garden) of
        None \<Rightarrow> []
      | Some weather \<Rightarrow>
          (let plantTypes = getPlantTypesFromCache cache now1 (userId garden)
           in if length plantTypes = 0 then []
              else (case collectProfiles plantTypes sensitivityProfiles [] of
                      Inl e \<Rightarrow> []
                    | Inr profiles \<Rightarrow>
                        checkThresholds cache now2 fresh weather profiles garden)))"

section \<open>NotificationService (unnamed/part_006, third document)\<close>

record SMSConfig =
  accountSid :: string
  authToken :: string
  fromNumber :: string

text \<open>
  The service object: \<open>twilioClient\<close> is whether the client field is non-null, \<open>config\<close>
  the stored configuration (\<open>None\<close> for \<open>null\<close>), \<open>enabled\<close> the flag. The constructor
  receives the optional configuration and whether \<open>Twilio(accountSid, authToken)\<close> returns
  (\<open>True\<close>) or throws (\<open>False\<close>). An empty string is falsy.
\<close>

record NotificationService =
  twilioClient :: bool
  config :: "SMSConfig option"
  enabled :: bool

definition newNotificationService :: "SMSConfig option \<Rightarrow> bool \<Rightarrow> NotificationService" where
  "newNotificationService cfg twilioInit =
     (case cfg of
        None \<Rightarrow> \<lparr>twilioClient = False, config = None, enabled = False\<rparr>
      | Some c \<Rightarrow>
          (if accountSid c = [] \<or> authToken c = [] \<or> fromNumber c = []
           then \<lparr>twilioClient = False, config = None, enabled = False\<rparr>
           else if twilioInit
           then \<lparr>twilioClient = True, config = Some c, enabled = True\<rparr>
           else \<lparr>twilioClient = False, config = Some c, enabled = False\<rparr>))"

definition isEnabled :: "NotificationService \<Rightarrow> bool" where
  "isEnabled svc = enabled svc"

text \<open>
  The gateway is an oracle: \<open>gateway k\<close> tells whether the \<open>k\<close>-th call of
  \<open>messages.create\<close> within one \<open>sendAlert\<close> resolves (\<open>k\<close> is the value of \<open>attempt\<close> after
  its increment, from 1). The trace records every submission (\<open>from\<close>, \<open>to\<close>, body) and
  every delay. \<open>sendSMS\<close> yields \<open>False\<close> and no event when it throws before reaching
  the gateway.
\<close>

datatype sms_io = Submit string string string | Delay int

definition sendSMS ::
  "NotificationService \<Rightarrow> (int \<Rightarrow> bool) \<Rightarrow> int \<Rightarrow> string \<Rightarrow> string \<Rightarrow> (bool \<times> sms_io list)"
where
  "sendSMS svc gateway k to message =
     (case config svc of
        None \<Rightarrow> (False, [])
      | Some c \<Rightarrow>
          (if \<not> twilioClient svc then (False, [])
           else (gateway k, [Submit (fromNumber c) to message])))"

function sendLoop ::
  "NotificationService \<Rightarrow> (int \<Rightarrow> bool) \<Rightarrow> string \<Rightarrow> string \<Rightarrow> int \<Rightarrow> int \<Rightarrow> sms_io list
     \<Rightarrow> bool \<times> sms_io list"
where
  "sendLoop svc gateway to message maxRetries attempt trace =
     (if attempt \<le> maxRetries then
        (case sendSMS svc gateway (attempt + 1) to message of
           (True, evs) \<Rightarrow> (True, trace @ evs)
         | (False, evs) \<Rightarrow>
             (if attempt + 1 \<le> maxRetries
              then sendLoop svc gateway to message maxRetries (attempt + 1)
                     (trace @ evs @ [Delay 5000])
              else sendLoop svc gateway to message maxRetries (attempt + 1) (trace @ evs)))
      else (False, trace))"
  by pat_completeness auto
termination
  by (relation "measure (\<lambda>(svc, gateway, to, message, maxRetries, attempt, trace).
                  nat (maxRetries + 1 - attempt))") auto

declare sendLoop.simps [simp del]

text \<open>
  \<open>formatAlertMessage\<close> builds the text of the message from the alert alone; it is the
  parameter \<open>format\<close>. The result of \<open>sendAlert\<close> is the returned boolean and the trace.
\<close>

definition sendAlert ::
  "NotificationService \<Rightarrow> (Alert \<Rightarrow> string) \<Rightarrow> (int \<Rightarrow> bool) \<Rightarrow> Alert \<Rightarrow> User
     \<Rightarrow> bool \<times> sms_io list"
where
  "sendAlert svc format gateway alert user =
     (if \<not> enabled svc \<or> \<not> twilioClient svc \<or> config svc = None then (False, [])
      else (case phone_number user of
              None \<Rightarrow> (False, [])
            | Some phone \<Rightarrow>
                (if phone = [] then (False, [])
                 else sendLoop svc gateway phone (format alert) 2 0 [])))"

section \<open>MetricsService (unnamed/part_006, first document)\<close>

record AlertMetrics =
  c_HIGH_TEMPERATURE :: nat
  c_LOW_TEMPERATURE :: nat
  c_HEAVY_RAIN :: nat
  c_STRONG_WIND :: nat

record SMSMetrics =
  sent :: nat
  failed :: nat
  successRate :: real

record LatencyStats =
  count :: nat
  totalLatency :: real
  averageLatency :: real
  minLatency :: real
  maxLatency :: real

record SystemMetrics =
  alerts :: AlertMetrics
  sms :: SMSMetrics
  openmeteo :: LatencyStats
  backend :: LatencyStats
  uptime :: int
  lastReset :: int

record MetricsService =
  alertCounts :: AlertMetrics
  smsSent :: nat
  smsFailed :: nat
  openMeteoLatencies :: "real list"
  backendLatencies :: "real list"
  startTime :: int

definition newMetricsService :: "int \<Rightarrow> MetricsService" where
  "newMetricsService now =
     \<lparr>alertCounts = \<lparr>c_HIGH_TEMPERATURE = 0, c_LOW_TEMPERATURE = 0, c_HEAVY_RAIN = 0,
                      c_STRONG_WIND = 0\<rparr>,
      smsSent = 0, smsFailed = 0, openMeteoLatencies = [], backendLatencies = [],
      startTime = now\<rparr>"

text \<open>
  \<open>recordAlert\<close> increments the counter whose key is the given string; any other string
  leaves the four counters as they are.
\<close>

definition recordAlert :: "string \<Rightarrow> MetricsService \<Rightarrow> MetricsService" where
  "recordAlert ty m =
     (let c = alertCounts m in
      if ty = ''HIGH_TEMPERATURE''
      then m\<lparr>alertCounts := c\<lparr>c_HIGH_TEMPERATURE := c_HIGH_TEMPERATURE c + 1\<rparr>\<rparr>
      else if ty = ''LOW_TEMPERATURE''
      then m\<lparr>alertCounts := c\<lparr>c_LOW_TEMPERATURE := c_LOW_TEMPERATURE c + 1\<rparr>\<rparr>
      else if ty = ''HEAVY_RAIN''
      then m\<lparr>alertCounts := c\<lparr>c_HEAVY_RAIN := c_HEAVY_RAIN c + 1\<rparr>\<rparr>
      else if ty = ''STRONG_WIND''
      then m\<lparr>alertCounts := c\<lparr>c_STRONG_WIND := c_STRONG_WIND c + 1\<rparr>\<rparr>
      else m)"

definition recordSMSSuccess :: "MetricsService \<Rightarrow> MetricsService" where
  "recordSMSSuccess m = m\<lparr>smsSent := smsSent m + 1\<rparr>"

definition recordSMSFailure :: "MetricsService \<Rightarrow> MetricsService" where
  "recordSMSFailure m = m\<lparr>smsFailed := smsFailed m + 1\<rparr>"

text \<open>\<open>push\<close> appends the sample; \<open>shift\<close> drops the oldest one.\<close>

definition recordOpenMeteoLatency :: "real \<Rightarrow> MetricsService \<Rightarrow> MetricsService" where
  "recordOpenMeteoLatency latencyMs m =
     (let pushed = openMeteoLatencies m @ [latencyMs]
      in m\<lparr>openMeteoLatencies := (if length pushed > 100 then tl pushed else pushed)\<rparr>)"

definition recordBackendLatency :: "real \<Rightarrow> MetricsService \<Rightarrow> MetricsService" where
  "recordBackendLatency latencyMs m =
     (let pushed = backendLatencies m @ [latencyMs]
      in m\<lparr>backendLatencies := (if length pushed > 100 then tl pushed else pushed)\<rparr>)"

text \<open>
  Arithmetic on JavaScript numbers is IEEE-754 binary64 arithmetic: the exact result of
  \<open>+\<close>, \<open>*\<close> or \<open>/\<close> is rounded to the nearest double, a tie going to the double with an
  even significand. \<open>fl x\<close> is that rounding, for \<open>x = 0\<close> and for magnitudes in the
  normal range (from \<open>2 ^ -1022\<close> to below \<open>2 ^ 1024\<close>), where a double is an integer of
  at most 53 bits times a power of two: \<open>expo x\<close> is the exponent of the leading bit of
  a positive \<open>x\<close>, \<open>rne\<close> rounds to the nearest integer, a tie to the even one.
\<close>

definition pow2 :: "int \<Rightarrow> real" where
  "pow2 e = (if 0 \<le> e then 2 ^ nat e else 1 / 2 ^ nat (- e))"

function expo :: "real \<Rightarrow> int" where
  "expo x =
     (if x \<le> 0 then 0
      else if x < 1 then expo (2 * x) - 1
      else if 2 \<le> x then expo (x / 2) + 1
      else 0)"
  by pat_completeness auto
termination
proof (relation "measure (\<lambda>x. if x < 1 then nat \<lceil>- log 2 x\<rceil> else nat \<lfloor>log 2 x\<rfloor>)")
  show "wf (measure (\<lambda>x. if x < 1 then nat \<lceil>- log 2 x\<rceil> else nat \<lfloor>log 2 x\<rfloor>))"
    by simp
next
  fix x :: real
  assume a: "\<not> x \<le> 0" "x < 1"
  then have l: "log 2 (2 * x) = 1 + log 2 x" "log 2 x < 0"
    by (simp_all add: log_mult)
  show "(2 * x, x) \<in> measure (\<lambda>x. if x < 1 then nat \<lceil>- log 2 x\<rceil> else nat \<lfloor>log 2 x\<rfloor>)"
  proof (cases "2 * x < 1")
    case True
    with a l show ?thesis by simp linarith
  next
    case False
    then have "1 \<le> 2 * x" by simp
    then have "0 \<le> log 2 (2 * x)" by simp
    moreover have "log 2 (2 * x) < 1" using a l by simp
    ultimately have "\<lfloor>log 2 (2 * x)\<rfloor> = 0" by linarith
    moreover have "0 < \<lceil>- log 2 x\<rceil>" using l by linarith
    ultimately show ?thesis using a False by simp
  qed
next
  fix x :: real
  assume a: "\<not> x \<le> 0" "\<not> x < 1" "2 \<le> x"
  then have l: "log 2 (x / 2) = log 2 x - 1" "1 \<le> log 2 x"
    by (simp_all add: log_divide)
  then have "\<lfloor>log 2 (x / 2)\<rfloor> = \<lfloor>log 2 x\<rfloor> - 1" "1 \<le> \<lfloor>log 2 x\<rfloor>"
    by linarith+
  with a show "(x / 2, x) \<in> measure (\<lambda>x. if x < 1 then nat \<lceil>- log 2 x\<rceil> else nat \<lfloor>log 2 x\<rfloor>)"
    by simp
qed

declare expo.simps [simp del]

definition rne :: "real \<Rightarrow> int" where
  "rne y =
     (let n = \<lfloor>y\<rfloor>; f = y - of_int n
      in if f < 1 / 2 then n
         else if 1 / 2 < f then n + 1
         else if even n then n else n + 1)"

definition fl :: "real \<Rightarrow> real" where
  "fl x =
     (if x = 0 then 0
      else (let e = expo \<bar>x\<bar> - 52
            in sgn x * (of_int (rne (\<bar>x\<bar> / pow2 e)) * pow2 e)))"

text \<open>
  \<open>Math.round\<close> yields the integer nearest to its argument, a half going upwards; it is
  exact. \<open>Math.floor\<close> is the floor.
\<close>

definition Math_round :: "real \<Rightarrow> real" where
  "Math_round x = of_int \<lfloor>x + 1 / 2\<rfloor>"

definition calculateLatencyStats :: "real list \<Rightarrow> LatencyStats" where
  "calculateLatencyStats latencies =
     (if length latencies = 0
      then \<lparr>count = 0, totalLatency = 0, averageLatency = 0, minLatency = 0, maxLatency = 0\<rparr>
      else
        (let total = fold (\<lambda>lat sum. fl (sum + lat)) latencies 0;
             avg = fl (total / of_nat (length latencies));
             mn = Math_min latencies;
             mx = Math_max latencies
         in \<lparr>count = length latencies,
             totalLatency = Math_round total,
             averageLatency = fl (Math_round (fl (avg * 10)) / 10),
             minLatency = Math_round mn,
             maxLatency = Math_round mx\<rparr>))"

definition getMetrics :: "int \<Rightarrow> MetricsService \<Rightarrow> SystemMetrics" where
  "getMetrics now m =
     (let totalSMS = smsSent m + smsFailed m;
          rate = (if totalSMS > 0 then fl (of_nat (smsSent m) / of_nat totalSMS) else 0);
          up = now - startTime m
      in \<lparr>alerts = alertCounts m,
          sms = \<lparr>sent = smsSent m, failed = smsFailed m,
                 successRate = fl (Math_round (fl (rate * 100)) / 100)\<rparr>,
          openmeteo = calculateLatencyStats (openMeteoLatencies m),
          backend = calculateLatencyStats (backendLatencies m),
          uptime = \<lfloor>fl (of_int up / 1000)\<rfloor>,
          lastReset = startTime m\<rparr>)"

text \<open>The calls that change the service, as data, and a run of them from left to right.\<close>

datatype metric_event =
    RecordAlert string
  | RecordSMSSuccess
  | RecordSMSFailure
  | RecordOpenMeteoLatency real
  | RecordBackendLatency real

fun applyEvent :: "metric_event \<Rightarrow> MetricsService \<Rightarrow> MetricsService" where
  "applyEvent (RecordAlert ty) m = recordAlert ty m"
| "applyEvent RecordSMSSuccess m = recordSMSSuccess m"
| "applyEvent RecordSMSFailure m = recordSMSFailure m"
| "applyEvent (RecordOpenMeteoLatency l) m = recordOpenMeteoLatency l m"
| "applyEvent (RecordBackendLatency l) m = recordBackendLatency l m"

definition run :: "metric_event list \<Rightarrow> MetricsService \<Rightarrow> MetricsService" where
  "run evs m = fold applyEvent evs m"

text \<open>
  What the specification says of the success rate: the exact ratio of sent to all
  messages, rounded to two decimals (to the nearest hundredth, a half upwards), and 0 when
  there were no messages.
\<close>

definition round2 :: "real \<Rightarrow> real" where
  "round2 x = of_int \<lfloor>x * 100 + 1 / 2\<rfloor> / 100"

definition spec_successRate :: "nat \<Rightarrow> nat \<Rightarrow> real" where
  "spec_successRate nsent nfailed =
     (if nsent + nfailed > 0 then round2 (of_nat nsent / of_nat (nsent + nfailed)) else 0)"

section \<open>AlertHistoryService (unnamed/part_006, second document)\<close>

record AlertDocument = Alert +
  createdAt :: int

text \<open>
  The optional fields of \<open>AlertHistoryFilters\<close>: \<open>None\<close> is an absent field. The source
  tests each field for truthiness: a string is truthy unless empty, a number unless 0, a
  \<open>Date\<close> object always.
\<close>

record AlertHistoryFilters =
  f_gardenId :: "string option"
  f_userId :: "int option"
  f_alertType :: "string option"
  startDate :: "int option"
  endDate :: "int option"

definition truthyString :: "string option \<Rightarrow> bool" where
  "truthyString v = (case v of None \<Rightarrow> False | Some s \<Rightarrow> s \<noteq> [])"

definition truthyNumber :: "int option \<Rightarrow> bool" where
  "truthyNumber v = (case v of None \<Rightarrow> False | Some n \<Rightarrow> n \<noteq> 0)"

definition truthyDate :: "int option \<Rightarrow> bool" where
  "truthyDate v = (case v of None \<Rightarrow> False | Some d \<Rightarrow> True)"

text \<open>
  The query document: a key that the source does not set is \<open>None\<close>; \<open>q_timestamp\<close>
  holds the pair of \<open>$gte\<close> and \<open>$lte\<close> once \<open>query.timestamp = {}\<close> has run.
\<close>

record Query =
  q_gardenId :: "string option"
  q_userId :: "int option"
  q_alertType :: "string option"
  q_timestamp :: "(int option \<times> int option) option"

definition emptyQuery :: Query where
  "emptyQuery = \<lparr>q_gardenId = None, q_userId = None, q_alertType = None, q_timestamp = None\<rparr>"

definition buildQuery :: "AlertHistoryFilters \<Rightarrow> Query" where
  "buildQuery filters =
     (let query0 = emptyQuery;
          query1 = (if truthyString (f_gardenId filters)
                    then query0\<lparr>q_gardenId := f_gardenId filters\<rparr> else query0);
          query2 = (if truthyNumber (f_userId filters)
                    then query1\<lparr>q_userId := f_userId filters\<rparr> else query1);
          query3 = (if truthyString (f_alertType filters)
                    then query2\<lparr>q_alertType := f_alertType filters\<rparr> else query2);
          query4 =
            (if truthyDate (startDate filters) \<or> truthyDate (endDate filters)
             then query3\<lparr>q_timestamp :=
                    Some (if truthyDate (startDate filters) then startDate filters else None,
                          if truthyDate (endDate filters) then endDate filters else None)\<rparr>
             else query3)
      in query4)"

text \<open>
  The service holds the flag \<open>isConnected\<close> and the collection handle (\<open>hasCollection\<close>:
  non-null). The database driver is outside the repository: \<open>findDocs query limit\<close> is what
  \<open>collection.find(query).sort({timestamp: -1}).limit(limit).toArray()\<close> resolves to,
  \<open>None\<close> when it rejects.
\<close>

record AlertHistoryService =
  isConnected :: bool
  hasCollection :: bool

definition getAlertHistory ::
  "AlertHistoryService \<Rightarrow> (Query \<Rightarrow> int \<Rightarrow> AlertDocument list option) \<Rightarrow> AlertHistoryFilters
     \<Rightarrow> int \<Rightarrow> AlertDocument list"
where
  "getAlertHistory svc findDocs filters limit =
     (if \<not> isConnected svc \<or> \<not> hasCollection svc then []
      else (case findDocs (buildQuery filters) limit of
              None \<Rightarrow> []
            | Some docs \<Rightarrow> docs))"

text \<open>
  Which documents a query built by \<open>buildQuery\<close> selects in the document store: a key
  that is set must equal the document's field, and the timestamp must lie within the
  bounds that are set.
\<close>

definition matches :: "Query \<Rightarrow> AlertDocument \<Rightarrow> bool" where
  "matches q doc =
     ((case q_gardenId q of None \<Rightarrow> True | Some g \<Rightarrow> a_gardenId doc = g) \<and>
      (case q_userId q of None \<Rightarrow> True | Some u \<Rightarrow> a_userId doc = u) \<and>
      (case q_alertType q of None \<Rightarrow> True
       | Some t \<Rightarrow> t = (case alertType doc of
                          HIGH_TEMPERATURE \<Rightarrow> ''HIGH_TEMPERATURE''
                        | LOW_TEMPERATURE \<Rightarrow> ''LOW_TEMPERATURE''
                        | HEAVY_RAIN \<Rightarrow> ''HEAVY_RAIN''
                        | STRONG_WIND \<Rightarrow> ''STRONG_WIND'')) \<and>
      (case q_timestamp q of None \<Rightarrow> True
       | Some (lo, hi) \<Rightarrow>
           (case lo of None \<Rightarrow> True | Some d \<Rightarrow> d \<le> a_timestamp doc) \<and>
           (case hi of None \<Rightarrow> True | Some d \<Rightarrow> a_timestamp doc \<le> d)))"

section \<open>Observations on traces and concrete inputs\<close>

text \<open>The number of HTTP requests in a trace of the retry helper, and its waits in order.\<close>

definition attempts :: "io list \<Rightarrow> nat" where
  "attempts tr = count_list tr HttpGet"

definition sleeps :: "io list \<Rightarrow> int list" where
  "sleeps tr = concat (map (\<lambda>ev. case ev of HttpGet \<Rightarrow> [] | Sleep ms \<Rightarrow> [ms]) tr)"

text \<open>
  What the specification calls a failure to be retried: a transport error or a status
  that is not 2xx.
\<close>

fun retryable :: "'a response \<Rightarrow> bool" where
  "retryable (Rejected msg) = True"
| "retryable (Response status statusText body) = (status < 200 \<or> 299 < status)"

text \<open>The submissions and the delays in a trace of \<open>sendAlert\<close>.\<close>

definition submits :: "sms_io list \<Rightarrow> nat" where
  "submits tr = length (filter (\<lambda>ev. case ev of Submit f t b \<Rightarrow> True | Delay ms \<Rightarrow> False) tr)"

definition delays :: "sms_io list \<Rightarrow> int list" where
  "delays tr = concat (map (\<lambda>ev. case ev of Submit f t b \<Rightarrow> [] | Delay ms \<Rightarrow> [ms]) tr)"

text \<open>The last \<open>n\<close> elements of a list (all of it when it is shorter).\<close>

definition lastN :: "nat \<Rightarrow> 'a list \<Rightarrow> 'a list" where
  "lastN n xs = drop (length xs - n) xs"

definition openMeteoSamples :: "metric_event list \<Rightarrow> real list" where
  "openMeteoSamples evs =
     concat (map (\<lambda>ev. case ev of RecordOpenMeteoLatency l \<Rightarrow> [l] | _ \<Rightarrow> []) evs)"

definition backendSamples :: "metric_event list \<Rightarrow> real list" where
  "backendSamples evs =
     concat (map (\<lambda>ev. case ev of RecordBackendLatency l \<Rightarrow> [l] | _ \<Rightarrow> []) evs)"

text \<open>The alert types of a list of alerts, in order.\<close>

definition typesOf :: "Alert list \<Rightarrow> AlertType list" where
  "typesOf as = map alertType as"

text \<open>
  Concrete inputs: a backend that refuses every connection, one that answers 503, a
  gateway that always fails and one that succeeds at the third call, the plants and
  profiles of the scenarios of the specification.
\<close>

definition backendDown :: "int \<Rightarrow> 'a response" where
  "backendDown k = Rejected ''ECONNREFUSED''"

definition backend503 :: "int \<Rightarrow> 'a response" where
  "backend503 k = Response 503 ''Service Unavailable'' None"

definition gatewayDown :: "int \<Rightarrow> bool" where
  "gatewayDown k = False"

definition gatewayThird :: "int \<Rightarrow> bool" where
  "gatewayThird k = (k = 3)"

definition plantT1 :: Plant where
  "plantT1 = \<lparr>p_id = 1, user_id = 1, p_name = ''T1'', p_type = ''tomato'',
              planted_at = ''2024-01-15'', p_notes = [], created_at = ''2024-01-10''\<rparr>"

definition plantL1 :: Plant where
  "plantL1 = \<lparr>p_id = 2, user_id = 1, p_name = ''L1'', p_type = ''lettuce'',
              planted_at = ''2024-01-15'', p_notes = [], created_at = ''2024-01-10''\<rparr>"

definition tomato :: SensitivityProfile where
  "tomato = \<lparr>plantType = ''tomato'', maxTemperature = 35, minTemperature = 10,
             maxPrecipitation = 20, maxWindSpeed = 50\<rparr>"

definition lettuce :: SensitivityProfile where
  "lettuce = \<lparr>plantType = ''lettuce'', maxTemperature = 25, minTemperature = 5,
              maxPrecipitation = 15, maxWindSpeed = 40\<rparr>"

definition registry :: "string \<rightharpoonup> SensitivityProfile" where
  "registry = [''tomato'' \<mapsto> tomato, ''lettuce'' \<mapsto> lettuce, ''default'' \<mapsto> tomato]"

definition gardenG1 :: Garden where
  "gardenG1 = \<lparr>gardenId = ''g1'', userId = 1, name = ''G1'', latitude = 40, longitude = -3\<rparr>"

definition weatherAt :: "real \<Rightarrow> real \<Rightarrow> real \<Rightarrow> WeatherData" where
  "weatherAt t r w =
     \<lparr>temperature = t, temperatureMax = t, temperatureMin = t, precipitation = r,
      windSpeed = w, w_timestamp = 0\<rparr>"

definition freshIds :: "nat \<Rightarrow> string \<times> int" where
  "freshIds k = (''alert'', 0)"

definition userWithPhone :: User where
  "userWithPhone = \<lparr>u_id = 1, u_name = ''Ana'', phone_number = Some ''+34600000000''\<rparr>"

definition smsConfig :: SMSConfig where
  "smsConfig = \<lparr>accountSid = ''AC1'', authToken = ''tok'', fromNumber = ''+15550000000''\<rparr>"

definition formatId :: "Alert \<Rightarrow> string" where
  "formatId a = alertId a"

definition alertA1 :: Alert where
  "alertA1 = \<lparr>alertId = ''a1'', a_gardenId = ''g1'', a_userId = 1, gardenName = ''G1'',
              a_timestamp = 0, alertType = HIGH_TEMPERATURE, metric = ''temperature'',
              currentValue = 36, threshold = 35, affectedPlantTypes = [''tomato''],
              affectedPlantNames = [''T1'']\<rparr>"

text \<open>
  Recordings: 23 successes and 17 failures; 2 successes, 1 failure and 101 latency samples
  for the weather API, the first of them 999 ms and the others 5 ms.
\<close>

definition events23of40 :: "metric_event list" where
  "events23of40 = replicate 23 RecordSMSSuccess @ replicate 17 RecordSMSFailure"

definition events101 :: "metric_event list" where
  "events101 =
     [RecordSMSSuccess, RecordSMSSuccess, RecordSMSFailure, RecordOpenMeteoLatency 999] @
     replicate 100 (RecordOpenMeteoLatency 5)"

definition weatherService :: "WeatherData \<Rightarrow> real \<Rightarrow> real \<Rightarrow> WeatherData option" where
  "weatherService w lat lon = Some w"

definition cacheS1 :: PlantCache where
  "cacheS1 = setCachedPlants 0 1 [plantT1] Map.empty"

definition cacheS3 :: PlantCache where
  "cacheS3 = setCachedPlants 0 1 [plantT1, plantL1] Map.empty"

text \<open>
  A service connected to a collection that holds one document, the alert \<open>alertA1\<close> of
  user 1 stored at instant 1, and answers a query with the documents it selects (the
  limit of the examples is never reached).
\<close>

definition docA1 :: AlertDocument where
  "docA1 = Alert.extend alertA1 (AlertDocument.fields 1)"

definition storeA1 :: "Query \<Rightarrow> int \<Rightarrow> AlertDocument list option" where
  "storeA1 query limit = Some (filter (matches query) [docA1])"

definition connected :: AlertHistoryService where
  "connected = \<lparr>isConnected = True, hasCollection = True\<rparr>"

definition noFilters :: AlertHistoryFilters where
  "noFilters = \<lparr>f_gardenId = None, f_userId = None, f_alertType = None, startDate = None,
                endDate = None\<rparr>"

section \<open>The plant cache and the retry helper\<close>

text \<open>The helper with its default of three attempts, unrolled.\<close>

lemma fetchWithRetry_3:
  "fetchWithRetry net 3 =
     (case attemptFetch (net 0) of
        Inr d \<Rightarrow> (Inr d, [HttpGet])
      | Inl e0 \<Rightarrow>
          (case attemptFetch (net 1) of
             Inr d \<Rightarrow> (Inr d, [HttpGet, Sleep 1000, HttpGet])
           | Inl e1 \<Rightarrow>
               (case attemptFetch (net 2) of
                  Inr d \<Rightarrow> (Inr d, [HttpGet, Sleep 1000, HttpGet, Sleep 2000, HttpGet])
                | Inl e2 \<Rightarrow> (Inl e2, [HttpGet, Sleep 1000, HttpGet, Sleep 2000, HttpGet]))))"
  unfolding fetchWithRetry_def
  by (simp add: fetchLoop.simps split: sum.splits)

lemma retryable_fails: "retryable resp \<Longrightarrow> isl (attemptFetch resp)"
  by (cases resp) auto

lemma fetchWithRetry_backendDown:
  "fetchWithRetry backendDown 3 =
     (Inl (FetchFailed ''ECONNREFUSED''), [HttpGet, Sleep 1000, HttpGet, Sleep 2000, HttpGet])"
  by (simp add: fetchWithRetry_3 backendDown_def)

text \<open>
  C7. After \<open>setCachedPlants\<close> at the instant \<open>t\<close>, a read at the instant \<open>now\<close> returns the
  plants that were set as long as \<open>now - t\<close> is at most the TTL of 24 hours, and \<open>null\<close>
  once \<open>now - t\<close> exceeds it.
\<close>

theorem cache_ttl:
  "(now - t \<le> cacheTTL \<longrightarrow> getCachedPlants (setCachedPlants t u p cache) now u = Some p) \<and>
   (now - t > cacheTTL \<longrightarrow> getCachedPlants (setCachedPlants t u p cache) now u = None)"
  by (simp add: getCachedPlants_def setCachedPlants_def Let_def)

text \<open>At the boundary: exactly 24 hours after the set the entry is still served, one
  millisecond later it is not.\<close>

theorem cache_ttl_witness:
  "getCachedPlants (setCachedPlants 0 1 [plantT1] Map.empty) cacheTTL 1 = Some [plantT1] \<and>
   getCachedPlants (setCachedPlants 0 1 [plantT1] Map.empty) (cacheTTL + 1) 1 = None"
  using cache_ttl [of cacheTTL 0 1 "[plantT1]" Map.empty]
        cache_ttl [of "cacheTTL + 1" 0 1 "[plantT1]" Map.empty]
  by simp

text \<open>
  C1, as stated, fails: the fallback of \<open>fetchUserPlants\<close> reads the cache through
  \<open>getCachedPlants\<close>, which applies the TTL. With an entry set at instant 0, a backend that
  refuses every connection and the clock one millisecond past the TTL, the entry is in
  the cache, yet the call throws "no cache available" instead of returning the plants.
\<close>

theorem stale_fallback_counterexample:
  "setCachedPlants 0 1 [plantT1] Map.empty 1 \<noteq> None \<and>
   fst (fetchUserPlants backendDown (cacheTTL + 1) (setCachedPlants 0 1 [plantT1] Map.empty) 1)
     = Inl (NoCacheAvailable 1) \<and>
   fst (fetchUserPlants backendDown (cacheTTL + 1) (setCachedPlants 0 1 [plantT1] Map.empty) 1)
     \<noteq> Inr [plantT1]"
  by (simp add: fetchUserPlants_def fetchWithRetry_backendDown getCachedPlants_def
        setCachedPlants_def)

text \<open>
  C1, amended. When the cache holds an entry for the user and the network fetch fails after
  all retries, \<open>fetchUserPlants\<close> returns the cached plants if the entry is at most 24 hours
  old at that moment; if the entry is older, the call throws "no cache available" and the
  fresh read \<open>getCachedPlants\<close> returns \<open>null\<close>. The cache is left as it was in both cases.
\<close>

theorem fetchUserPlants_fallback:
  assumes "cache uid = Some entry" and "fst (fetchWithRetry net 3) = Inl e"
  shows "(now - lastUpdated entry \<le> cacheTTL \<longrightarrow>
            fst (fetchUserPlants net now cache uid) = Inr (plants entry)) \<and>
         (now - lastUpdated entry > cacheTTL \<longrightarrow>
            fst (fetchUserPlants net now cache uid) = Inl (NoCacheAvailable uid) \<and>
            getCachedPlants cache now uid = None) \<and>
         fst (snd (fetchUserPlants net now cache uid)) = cache"
proof -
  obtain tr where "fetchWithRetry net 3 = (Inl e, tr)"
    using assms(2) by (cases "fetchWithRetry net 3") simp
  then show ?thesis
    using assms(1) by (simp add: fetchUserPlants_def getCachedPlants_def Let_def)
qed

theorem fetchUserPlants_fallback_witness:
  "fst (fetchUserPlants backendDown cacheTTL (setCachedPlants 0 1 [plantT1] Map.empty) 1)
     = Inr [plantT1] \<and>
   fst (fetchUserPlants backendDown (cacheTTL + 1) (setCachedPlants 0 1 [plantT1] Map.empty) 1)
     = Inl (NoCacheAvailable 1) \<and>
   getCachedPlants (setCachedPlants 0 1 [plantT1] Map.empty) (cacheTTL + 1) 1 = None"
proof -
  let ?c = "setCachedPlants 0 1 [plantT1] Map.empty"
  let ?e = "\<lparr>plants = [plantT1], ce_timestamp = 0, lastUpdated = 0\<rparr>"
  have c: "?c 1 = Some ?e" by (simp add: setCachedPlants_def)
  have f: "fst (fetchWithRetry (backendDown :: int \<Rightarrow> Plant list response) 3)
             = Inl (FetchFailed ''ECONNREFUSED'')"
    by (simp add: fetchWithRetry_backendDown)
  show ?thesis
    using fetchUserPlants_fallback [where cache = ?c and uid = 1 and entry = ?e
            and net = backendDown and now = cacheTTL, OF c f]
          fetchUserPlants_fallback [where cache = ?c and uid = 1 and entry = ?e
            and net = backendDown and now = "cacheTTL + 1", OF c f]
    by simp
qed

text \<open>
  C5. One run of the retry helper with its default of three attempts (as \<open>fetchUserPlants\<close>
  and \<open>fetchUser\<close> call it) makes at most 3 HTTP requests; the trace is a request, then
  alternately a wait and a request, the waits being the first ones of the sequence 1 s,
  2 s, 4 s (one wait fewer than there are requests, so 1 s and 2 s are reached and no
  wait follows the third request); the outcome is that of the last request made; as long
  as every earlier request met a transport error or a status that is not 2xx, a further
  request is made, up to the third; and when all three fail so, the helper throws an error.
\<close>

theorem fetchWithRetry_policy:
  assumes "fetchWithRetry net 3 = (r, tr)"
  shows "attempts tr \<le> 3 \<and>
         tr \<in> {[HttpGet], [HttpGet, Sleep 1000, HttpGet],
               [HttpGet, Sleep 1000, HttpGet, Sleep 2000, HttpGet]} \<and>
         sleeps tr = take (attempts tr - 1) [1000, 2000, 4000] \<and>
         r = attemptFetch (net (int (attempts tr) - 1)) \<and>
         (\<forall>k \<in> {0, 1, 2}. (\<forall>j \<in> {0 ..< k}. retryable (net j)) \<longrightarrow> int (attempts tr) > k) \<and>
         ((\<forall>k \<in> {0, 1, 2}. retryable (net k)) \<longrightarrow>
            attempts tr = 3 \<and> sleeps tr = [1000, 2000] \<and> isl r)"
proof -
  have r0: "retryable (net 0) \<Longrightarrow> isl (attemptFetch (net 0))"
   and r1: "retryable (net 1) \<Longrightarrow> isl (attemptFetch (net 1))"
   and r2: "retryable (net 2) \<Longrightarrow> isl (attemptFetch (net 2))"
    by (rule retryable_fails; assumption)+
  have j1: "{0 ..< 1 :: int} = {0}" and j2: "{0 ..< 2 :: int} = {0, 1}" by auto
  consider
      (first) d where "attemptFetch (net 0) = Inr d"
    | (second) e0 d where "attemptFetch (net 0) = Inl e0" "attemptFetch (net 1) = Inr d"
    | (third) e0 e1 where "attemptFetch (net 0) = Inl e0" "attemptFetch (net 1) = Inl e1"
    by (cases "attemptFetch (net 0)"; cases "attemptFetch (net 1)") auto
  then show ?thesis
  proof cases
    case first
    with assms have "r = Inr d" "tr = [HttpGet]" by (simp_all add: fetchWithRetry_3)
    with first r0 show ?thesis by (auto simp add: attempts_def sleeps_def j1 j2)
  next
    case second
    with assms have "r = Inr d" "tr = [HttpGet, Sleep 1000, HttpGet]"
      by (simp_all add: fetchWithRetry_3)
    with second r1 show ?thesis by (auto simp add: attempts_def sleeps_def j1 j2)
  next
    case third
    with assms have "r = attemptFetch (net 2)"
      "tr = [HttpGet, Sleep 1000, HttpGet, Sleep 2000, HttpGet]"
      by (simp_all add: fetchWithRetry_3 split: sum.splits)
    with r2 show ?thesis by (simp add: attempts_def sleeps_def j1 j2)
  qed
qed

theorem fetchWithRetry_policy_witness:
  "fetchWithRetry (backend503 :: int \<Rightarrow> Plant list response) 3
     = (Inl (HTTPError 503 ''Service Unavailable''),
        [HttpGet, Sleep 1000, HttpGet, Sleep 2000, HttpGet]) \<and>
   attempts [HttpGet, Sleep 1000, HttpGet, Sleep 2000, HttpGet] \<le> 3 \<and>
   sleeps [HttpGet, Sleep 1000, HttpGet, Sleep 2000, HttpGet]
     = take (attempts [HttpGet, Sleep 1000, HttpGet, Sleep 2000, HttpGet] - 1) [1000, 2000, 4000]"
proof -
  have h: "fetchWithRetry (backend503 :: int \<Rightarrow> Plant list response) 3
     = (Inl (HTTPError 503 ''Service Unavailable''),
        [HttpGet, Sleep 1000, HttpGet, Sleep 2000, HttpGet])"
    by (simp add: fetchWithRetry_3 backend503_def)
  note p = fetchWithRetry_policy [OF h]
  from h p show ?thesis by blast
qed

section \<open>AlertEngine: the threshold rules\<close>

lemma Math_min_Min: "Math_min xs = Min (set xs)" if "xs \<noteq> []"
proof (cases xs)
  case Nil
  with that show ?thesis by simp
next
  case (Cons a list)
  then show ?thesis by (simp only: Math_min.simps Min.set_eq_fold)
qed

lemma Math_max_Max: "Math_max xs = Max (set xs)" if "xs \<noteq> []"
proof (cases xs)
  case Nil
  with that show ?thesis by simp
next
  case (Cons a list)
  then show ?thesis by (simp only: Math_max.simps Max.set_eq_fold)
qed

text \<open>
  The alert types that one evaluation emits, in order: one entry per rule whose strict
  comparison holds for some profile.
\<close>

lemma typesOf_checkThresholds:
  "typesOf (checkThresholds cache now fresh w ps g) =
     (if \<exists>p \<in> set ps. temperature w > maxTemperature p then [HIGH_TEMPERATURE] else []) @
     (if \<exists>p \<in> set ps. temperature w < minTemperature p then [LOW_TEMPERATURE] else []) @
     (if \<exists>p \<in> set ps. precipitation w > maxPrecipitation p then [HEAVY_RAIN] else []) @
     (if \<exists>p \<in> set ps. windSpeed w > maxWindSpeed p then [STRONG_WIND] else [])"
  by (simp add: typesOf_def checkThresholds_def pushAlert_def Let_def filter_empty_conv)

text \<open>What an emitted alert of each type carries.\<close>

lemma alert_of_checkThresholds:
  assumes "a \<in> set (checkThresholds cache now fresh w ps g)"
  shows "(alertType a = HIGH_TEMPERATURE \<longrightarrow>
            filter (\<lambda>p. temperature w > maxTemperature p) ps \<noteq> [] \<and>
            threshold a = Math_min (map maxTemperature (filter (\<lambda>p. temperature w > maxTemperature p) ps)) \<and>
            affectedPlantTypes a = map plantType (filter (\<lambda>p. temperature w > maxTemperature p) ps)) \<and>
         (alertType a = LOW_TEMPERATURE \<longrightarrow>
            filter (\<lambda>p. temperature w < minTemperature p) ps \<noteq> [] \<and>
            threshold a = Math_max (map minTemperature (filter (\<lambda>p. temperature w < minTemperature p) ps)) \<and>
            affectedPlantTypes a = map plantType (filter (\<lambda>p. temperature w < minTemperature p) ps)) \<and>
         (alertType a = HEAVY_RAIN \<longrightarrow>
            filter (\<lambda>p. precipitation w > maxPrecipitation p) ps \<noteq> [] \<and>
            threshold a = Math_min (map maxPrecipitation (filter (\<lambda>p. precipitation w > maxPrecipitation p) ps)) \<and>
            affectedPlantTypes a = map plantType (filter (\<lambda>p. precipitation w > maxPrecipitation p) ps)) \<and>
         (alertType a = STRONG_WIND \<longrightarrow>
            filter (\<lambda>p. windSpeed w > maxWindSpeed p) ps \<noteq> [] \<and>
            threshold a = Math_min (map maxWindSpeed (filter (\<lambda>p. windSpeed w > maxWindSpeed p) ps)) \<and>
            affectedPlantTypes a = map plantType (filter (\<lambda>p. windSpeed w > maxWindSpeed p) ps))"
  using assms
  by (auto simp add: checkThresholds_def pushAlert_def Let_def split: if_splits)

text \<open>Scenarios S1 and S3 of the specification, and the engine on S1.\<close>

lemma checkThresholds_S1:
  "checkThresholds cacheS1 0 freshIds (weatherAt 36 0 0) [tomato] gardenG1 =
     [\<lparr>alertId = ''alert'', a_gardenId = ''g1'', a_userId = 1, gardenName = ''G1'',
       a_timestamp = 0, alertType = HIGH_TEMPERATURE, metric = ''temperature'',
       currentValue = 36, threshold = 35, affectedPlantTypes = [''tomato''],
       affectedPlantNames = [''T1'']\<rparr>]"
  by (simp add: checkThresholds_def pushAlert_def namesOfTypes_def Let_def cacheS1_def
        getCachedPlants_def setCachedPlants_def cacheTTL_def freshIds_def weatherAt_def
        tomato_def gardenG1_def plantT1_def)

lemma checkThresholds_S3:
  "checkThresholds cacheS3 0 freshIds (weatherAt 30 0 0) [tomato, lettuce] gardenG1 =
     [\<lparr>alertId = ''alert'', a_gardenId = ''g1'', a_userId = 1, gardenName = ''G1'',
       a_timestamp = 0, alertType = HIGH_TEMPERATURE, metric = ''temperature'',
       currentValue = 30, threshold = 25, affectedPlantTypes = [''lettuce''],
       affectedPlantNames = [''L1'']\<rparr>]"
  by (simp add: checkThresholds_def pushAlert_def namesOfTypes_def Let_def cacheS3_def
        getCachedPlants_def setCachedPlants_def cacheTTL_def freshIds_def weatherAt_def
        tomato_def lettuce_def gardenG1_def plantT1_def plantL1_def)

lemma evaluateGarden_S1:
  "evaluateGarden (weatherService (weatherAt 36 0 0)) cacheS1 0 0 freshIds registry gardenG1 =
     checkThresholds cacheS1 0 freshIds (weatherAt 36 0 0) [tomato] gardenG1"
  by (simp add: evaluateGarden_def weatherService_def getPlantTypesFromCache_def Set_add_def
        cacheS1_def getCachedPlants_def setCachedPlants_def cacheTTL_def gardenG1_def
        plantT1_def registry_def getProfileForPlantType_def Let_def)

text \<open>
  C2. For every weather snapshot and every list of profiles, \<open>checkThresholds\<close> emits a
  HIGH_TEMPERATURE alert if and only if the temperature is strictly above the
  \<open>maxTemperature\<close> of some profile, a LOW_TEMPERATURE alert if and only if it is strictly
  below the \<open>minTemperature\<close> of some profile, a HEAVY_RAIN alert if and only if the
  precipitation is strictly above some \<open>maxPrecipitation\<close>, and a STRONG_WIND alert if and
  only if the wind speed is strictly above some \<open>maxWindSpeed\<close>; when the metric equals the
  threshold of every profile, no alert of that rule is emitted.
\<close>

theorem strict_threshold_rule:
  "((\<exists>a \<in> set (checkThresholds cache now fresh w ps g). alertType a = HIGH_TEMPERATURE)
      \<longleftrightarrow> (\<exists>p \<in> set ps. temperature w > maxTemperature p)) \<and>
   ((\<exists>a \<in> set (checkThresholds cache now fresh w ps g). alertType a = LOW_TEMPERATURE)
      \<longleftrightarrow> (\<exists>p \<in> set ps. temperature w < minTemperature p)) \<and>
   ((\<exists>a \<in> set (checkThresholds cache now fresh w ps g). alertType a = HEAVY_RAIN)
      \<longleftrightarrow> (\<exists>p \<in> set ps. precipitation w > maxPrecipitation p)) \<and>
   ((\<exists>a \<in> set (checkThresholds cache now fresh w ps g). alertType a = STRONG_WIND)
      \<longleftrightarrow> (\<exists>p \<in> set ps. windSpeed w > maxWindSpeed p)) \<and>
   ((\<forall>p \<in> set ps. temperature w = maxTemperature p) \<longrightarrow>
      HIGH_TEMPERATURE \<notin> set (typesOf (checkThresholds cache now fresh w ps g))) \<and>
   ((\<forall>p \<in> set ps. temperature w = minTemperature p) \<longrightarrow>
      LOW_TEMPERATURE \<notin> set (typesOf (checkThresholds cache now fresh w ps g))) \<and>
   ((\<forall>p \<in> set ps. precipitation w = maxPrecipitation p) \<longrightarrow>
      HEAVY_RAIN \<notin> set (typesOf (checkThresholds cache now fresh w ps g))) \<and>
   ((\<forall>p \<in> set ps. windSpeed w = maxWindSpeed p) \<longrightarrow>
      STRONG_WIND \<notin> set (typesOf (checkThresholds cache now fresh w ps g)))"
proof -
  let ?T = "typesOf (checkThresholds cache now fresh w ps g)"
  have ex: "(\<exists>a \<in> set (checkThresholds cache now fresh w ps g). alertType a = ty)
              \<longleftrightarrow> ty \<in> set ?T" for ty
    by (auto simp add: typesOf_def)
  have hi: "HIGH_TEMPERATURE \<in> set ?T \<longleftrightarrow> (\<exists>p \<in> set ps. temperature w > maxTemperature p)"
    by (simp add: typesOf_checkThresholds)
  have lo: "LOW_TEMPERATURE \<in> set ?T \<longleftrightarrow> (\<exists>p \<in> set ps. temperature w < minTemperature p)"
    by (simp add: typesOf_checkThresholds)
  have ra: "HEAVY_RAIN \<in> set ?T \<longleftrightarrow> (\<exists>p \<in> set ps. precipitation w > maxPrecipitation p)"
    by (simp add: typesOf_checkThresholds)
  have wi: "STRONG_WIND \<in> set ?T \<longleftrightarrow> (\<exists>p \<in> set ps. windSpeed w > maxWindSpeed p)"
    by (simp add: typesOf_checkThresholds)
  show ?thesis
    unfolding ex hi lo ra wi by auto
qed

theorem strict_threshold_rule_witness:
  "(\<exists>p \<in> set [tomato]. temperature (weatherAt 36 0 0) > maxTemperature p) \<and>
   (\<exists>a \<in> set (checkThresholds cacheS1 0 freshIds (weatherAt 36 0 0) [tomato] gardenG1).
      alertType a = HIGH_TEMPERATURE) \<and>
   temperature (weatherAt 35 0 0) = maxTemperature tomato \<and>
   HIGH_TEMPERATURE \<notin>
     set (typesOf (checkThresholds cacheS1 0 freshIds (weatherAt 35 0 0) [tomato] gardenG1))"
proof -
  have a: "\<exists>p \<in> set [tomato]. temperature (weatherAt 36 0 0) > maxTemperature p"
    by (simp add: tomato_def weatherAt_def)
  have b: "\<forall>p \<in> set [tomato]. temperature (weatherAt 35 0 0) = maxTemperature p"
    by (simp add: tomato_def weatherAt_def)
  note r1 = strict_threshold_rule [of cacheS1 0 freshIds "weatherAt 36 0 0" "[tomato]" gardenG1]
  note r2 = strict_threshold_rule [of cacheS1 0 freshIds "weatherAt 35 0 0" "[tomato]" gardenG1]
  have c: "\<exists>a \<in> set (checkThresholds cacheS1 0 freshIds (weatherAt 36 0 0) [tomato] gardenG1).
             alertType a = HIGH_TEMPERATURE"
    using conjunct1 [OF r1] a by (rule iffD2)
  have d: "HIGH_TEMPERATURE \<notin>
             set (typesOf (checkThresholds cacheS1 0 freshIds (weatherAt 35 0 0) [tomato] gardenG1))"
    using conjunct1 [OF conjunct2 [OF conjunct2 [OF conjunct2 [OF conjunct2 [OF r2]]]]] b
    by (rule mp)
  have b': "temperature (weatherAt 35 0 0) = maxTemperature tomato"
    using b by simp
  from a c b' d show ?thesis by (intro conjI)
qed

text \<open>
  C9. The alert types of one evaluation form a subsequence of HIGH_TEMPERATURE,
  LOW_TEMPERATURE, HEAVY_RAIN, STRONG_WIND: they come in this order and each at most once
  (so there are at most four alerts).
\<close>

theorem alert_order:
  "subseq (typesOf (checkThresholds cache now fresh w ps g))
          [HIGH_TEMPERATURE, LOW_TEMPERATURE, HEAVY_RAIN, STRONG_WIND] \<and>
   distinct (typesOf (checkThresholds cache now fresh w ps g)) \<and>
   length (checkThresholds cache now fresh w ps g) \<le> 4"
proof -
  have "length (checkThresholds cache now fresh w ps g)
          = length (typesOf (checkThresholds cache now fresh w ps g))"
    by (simp add: typesOf_def)
  then show ?thesis
    by (simp add: typesOf_checkThresholds)
qed

theorem alert_order_witness:
  "typesOf (checkThresholds cacheS1 0 freshIds (weatherAt 40 30 60) [tomato] gardenG1)
     = [HIGH_TEMPERATURE, HEAVY_RAIN, STRONG_WIND] \<and>
   subseq (typesOf (checkThresholds cacheS1 0 freshIds (weatherAt 40 30 60) [tomato] gardenG1))
     [HIGH_TEMPERATURE, LOW_TEMPERATURE, HEAVY_RAIN, STRONG_WIND] \<and>
   distinct (typesOf (checkThresholds cacheS1 0 freshIds (weatherAt 40 30 60) [tomato] gardenG1))"
proof -
  have "typesOf (checkThresholds cacheS1 0 freshIds (weatherAt 40 30 60) [tomato] gardenG1)
          = [HIGH_TEMPERATURE, HEAVY_RAIN, STRONG_WIND]"
    by (simp add: typesOf_checkThresholds weatherAt_def tomato_def)
  with alert_order [of cacheS1 0 freshIds "weatherAt 40 30 60" "[tomato]" gardenG1]
  show ?thesis by blast
qed

text \<open>
  C3. In every emitted HIGH_TEMPERATURE, HEAVY_RAIN or STRONG_WIND alert the threshold is
  the minimum of \<open>maxTemperature\<close>, \<open>maxPrecipitation\<close> or \<open>maxWindSpeed\<close> over the affected
  profiles (those the metric strictly exceeds); in every emitted LOW_TEMPERATURE alert it
  is the maximum of \<open>minTemperature\<close> over the affected profiles (those the temperature is
  strictly below).
\<close>

theorem most_restrictive_threshold:
  assumes "a \<in> set (checkThresholds cache now fresh w ps g)"
  shows "(alertType a = HIGH_TEMPERATURE \<longrightarrow>
            threshold a = Min (maxTemperature ` {p \<in> set ps. temperature w > maxTemperature p})) \<and>
         (alertType a = LOW_TEMPERATURE \<longrightarrow>
            threshold a = Max (minTemperature ` {p \<in> set ps. temperature w < minTemperature p})) \<and>
         (alertType a = HEAVY_RAIN \<longrightarrow>
            threshold a = Min (maxPrecipitation ` {p \<in> set ps. precipitation w > maxPrecipitation p})) \<and>
         (alertType a = STRONG_WIND \<longrightarrow>
            threshold a = Min (maxWindSpeed ` {p \<in> set ps. windSpeed w > maxWindSpeed p}))"
  using alert_of_checkThresholds [OF assms]
  by (simp add: Math_min_Min Math_max_Max)

text \<open>
  Both profiles affected: at 40 degrees, 30 mm/h and 60 km/h the thresholds are the smaller
  of the two maxima for each rule, and at 0 degrees the larger of the two minima.
\<close>

lemma checkThresholds_two_affected:
  "typesOf (checkThresholds cacheS3 0 freshIds (weatherAt 40 30 60) [tomato, lettuce] gardenG1)
     = [HIGH_TEMPERATURE, HEAVY_RAIN, STRONG_WIND] \<and>
   map threshold (checkThresholds cacheS3 0 freshIds (weatherAt 40 30 60) [tomato, lettuce] gardenG1)
     = [25, 15, 40] \<and>
   map affectedPlantTypes
       (checkThresholds cacheS3 0 freshIds (weatherAt 40 30 60) [tomato, lettuce] gardenG1)
     = [[''tomato'', ''lettuce''], [''tomato'', ''lettuce''], [''tomato'', ''lettuce'']]"
  by (simp add: typesOf_def checkThresholds_def pushAlert_def namesOfTypes_def Let_def
        cacheS3_def getCachedPlants_def setCachedPlants_def cacheTTL_def freshIds_def
        weatherAt_def tomato_def lettuce_def gardenG1_def plantT1_def plantL1_def)

lemma checkThresholds_cold:
  "typesOf (checkThresholds cacheS3 0 freshIds (weatherAt 0 0 0) [tomato, lettuce] gardenG1)
     = [LOW_TEMPERATURE] \<and>
   map threshold (checkThresholds cacheS3 0 freshIds (weatherAt 0 0 0) [tomato, lettuce] gardenG1)
     = [10] \<and>
   map affectedPlantTypes
       (checkThresholds cacheS3 0 freshIds (weatherAt 0 0 0) [tomato, lettuce] gardenG1)
     = [[''tomato'', ''lettuce'']]"
  by (simp add: typesOf_def checkThresholds_def pushAlert_def namesOfTypes_def Let_def
        cacheS3_def getCachedPlants_def setCachedPlants_def cacheTTL_def freshIds_def
        weatherAt_def tomato_def lettuce_def gardenG1_def plantT1_def plantL1_def)

theorem most_restrictive_threshold_witness:
  "map affectedPlantTypes
       (checkThresholds cacheS3 0 freshIds (weatherAt 40 30 60) [tomato, lettuce] gardenG1)
     = [[''tomato'', ''lettuce''], [''tomato'', ''lettuce''], [''tomato'', ''lettuce'']] \<and>
   typesOf (checkThresholds cacheS3 0 freshIds (weatherAt 40 30 60) [tomato, lettuce] gardenG1)
     = [HIGH_TEMPERATURE, HEAVY_RAIN, STRONG_WIND] \<and>
   map threshold (checkThresholds cacheS3 0 freshIds (weatherAt 40 30 60) [tomato, lettuce] gardenG1)
     = [25, 15, 40] \<and>
   Min (maxTemperature `
          {p \<in> set [tomato, lettuce]. temperature (weatherAt 40 30 60) > maxTemperature p}) = 25 \<and>
   Min (maxPrecipitation `
          {p \<in> set [tomato, lettuce]. precipitation (weatherAt 40 30 60) > maxPrecipitation p})
     = 15 \<and>
   Min (maxWindSpeed `
          {p \<in> set [tomato, lettuce]. windSpeed (weatherAt 40 30 60) > maxWindSpeed p}) = 40 \<and>
   map affectedPlantTypes
       (checkThresholds cacheS3 0 freshIds (weatherAt 0 0 0) [tomato, lettuce] gardenG1)
     = [[''tomato'', ''lettuce'']] \<and>
   typesOf (checkThresholds cacheS3 0 freshIds (weatherAt 0 0 0) [tomato, lettuce] gardenG1)
     = [LOW_TEMPERATURE] \<and>
   map threshold (checkThresholds cacheS3 0 freshIds (weatherAt 0 0 0) [tomato, lettuce] gardenG1)
     = [10] \<and>
   Max (minTemperature `
          {p \<in> set [tomato, lettuce]. temperature (weatherAt 0 0 0) < minTemperature p}) = 10"
proof -
  let ?hot = "checkThresholds cacheS3 0 freshIds (weatherAt 40 30 60) [tomato, lettuce] gardenG1"
  let ?cold = "checkThresholds cacheS3 0 freshIds (weatherAt 0 0 0) [tomato, lettuce] gardenG1"
  note hot = checkThresholds_two_affected
  note cold = checkThresholds_cold
  from hot obtain a1 a2 a3 where h: "?hot = [a1, a2, a3]"
    by (auto simp add: map_eq_Cons_conv)
  from cold obtain b1 where c: "?cold = [b1]"
    by (auto simp add: map_eq_Cons_conv)
  from hot have ha: "alertType a1 = HIGH_TEMPERATURE" "threshold a1 = 25"
    "alertType a2 = HEAVY_RAIN" "threshold a2 = 15"
    "alertType a3 = STRONG_WIND" "threshold a3 = 40"
    by (simp_all add: h typesOf_def)
  from cold have cb: "alertType b1 = LOW_TEMPERATURE" "threshold b1 = 10"
    by (simp_all add: c typesOf_def)
  have m: "a1 \<in> set ?hot" "a2 \<in> set ?hot" "a3 \<in> set ?hot" and mc: "b1 \<in> set ?cold"
    by (simp_all add: h c)
  from most_restrictive_threshold [OF m(1)] ha
  have t1: "Min (maxTemperature `
          {p \<in> set [tomato, lettuce]. temperature (weatherAt 40 30 60) > maxTemperature p}) = 25"
    by simp
  from most_restrictive_threshold [OF m(2)] ha
  have t2: "Min (maxPrecipitation `
          {p \<in> set [tomato, lettuce]. precipitation (weatherAt 40 30 60) > maxPrecipitation p})
     = 15"
    by simp
  from most_restrictive_threshold [OF m(3)] ha
  have t3: "Min (maxWindSpeed `
          {p \<in> set [tomato, lettuce]. windSpeed (weatherAt 40 30 60) > maxWindSpeed p}) = 40"
    by simp
  from most_restrictive_threshold [OF mc] cb
  have t4: "Max (minTemperature `
          {p \<in> set [tomato, lettuce]. temperature (weatherAt 0 0 0) < minTemperature p}) = 10"
    by simp
  from hot cold t1 t2 t3 t4 show ?thesis by simp
qed

text \<open>
  C4. For every garden and every outcome of the weather fetch, \<open>evaluateGarden\<close> returns
  the empty list whenever the cache read for the garden's user returns \<open>null\<close> or an empty
  list of plants.
\<close>

theorem no_plants_no_alerts:
  assumes "getCachedPlants cache now1 (userId garden) = None \<or>
           getCachedPlants cache now1 (userId garden) = Some []"
  shows "evaluateGarden fetchWeather cache now1 now2 fresh sensitivityProfiles garden = []"
  using assms
  by (auto simp add: evaluateGarden_def getPlantTypesFromCache_def Let_def split: option.splits)

theorem no_plants_no_alerts_witness:
  "getCachedPlants Map.empty 0 (userId gardenG1) = None \<and>
   evaluateGarden (weatherService (weatherAt 40 30 60)) Map.empty 0 0 freshIds registry gardenG1
     = [] \<and>
   getCachedPlants (setCachedPlants 0 1 [] Map.empty) 0 (userId gardenG1) = Some [] \<and>
   evaluateGarden (weatherService (weatherAt 40 30 60)) (setCachedPlants 0 1 [] Map.empty) 0 0
     freshIds registry gardenG1 = []"
proof -
  have a: "getCachedPlants Map.empty 0 (userId gardenG1) = None"
    by (simp add: getCachedPlants_def)
  have b: "getCachedPlants (setCachedPlants 0 1 [] Map.empty) 0 (userId gardenG1) = Some []"
    by (simp add: getCachedPlants_def setCachedPlants_def gardenG1_def cacheTTL_def)
  from a b
    no_plants_no_alerts [of Map.empty 0 gardenG1 "weatherService (weatherAt 40 30 60)" 0
      freshIds registry]
    no_plants_no_alerts [of "setCachedPlants 0 1 [] Map.empty" 0 gardenG1
      "weatherService (weatherAt 40 30 60)" 0 freshIds registry]
  show ?thesis by blast
qed

section \<open>NotificationService: sending an alert\<close>

text \<open>The retry loop of \<open>sendAlert\<close> on an initialised service, unrolled.\<close>

lemma sendLoop_2:
  assumes "config svc = Some c" and "twilioClient svc"
  shows "sendLoop svc gateway to msg 2 0 [] =
     (if gateway 1 then (True, [Submit (fromNumber c) to msg])
      else if gateway 2
      then (True, [Submit (fromNumber c) to msg, Delay 5000, Submit (fromNumber c) to msg])
      else (gateway 3,
            [Submit (fromNumber c) to msg, Delay 5000, Submit (fromNumber c) to msg,
             Delay 5000, Submit (fromNumber c) to msg]))"
  using assms by (cases "gateway 3") (simp_all add: sendLoop.simps sendSMS_def)

text \<open>The constructor enables the service only with a client and a stored configuration.\<close>

lemma enabled_new:
  "enabled (newNotificationService cfg twilioInit) \<Longrightarrow>
     twilioClient (newNotificationService cfg twilioInit) \<and>
     (\<exists>c. config (newNotificationService cfg twilioInit) = Some c \<and> cfg = Some c)"
  by (auto simp add: newNotificationService_def split: option.splits if_splits)

text \<open>
  C6. On a service as its constructor builds it, \<open>sendAlert\<close> returns \<open>false\<close> with no
  submission to the gateway when the service is not enabled or the user's phone number is
  \<open>null\<close> or empty. Otherwise it submits at least once and at most 3 times, with a delay of
  5000 ms between two submissions and none after the last; it stops at the first
  submission that succeeds and returns \<open>true\<close>, and returns \<open>false\<close> after three failed
  submissions. The result is always a boolean: no error leaves the call.
\<close>

theorem sendAlert_policy:
  "(\<not> isEnabled (newNotificationService cfg twilioInit) \<or> phone_number user = None \<or>
      phone_number user = Some []
    \<longrightarrow> sendAlert (newNotificationService cfg twilioInit) format gateway alert user
          = (False, [])) \<and>
   (isEnabled (newNotificationService cfg twilioInit) \<and> phone_number user = Some phone \<and>
      phone \<noteq> [] \<and>
      sendAlert (newNotificationService cfg twilioInit) format gateway alert user = (r, tr)
    \<longrightarrow> 1 \<le> submits tr \<and> submits tr \<le> 3 \<and>
        delays tr = replicate (submits tr - 1) 5000 \<and>
        (\<exists>c. cfg = Some c \<and>
           tr \<in> {[Submit (fromNumber c) phone (format alert)],
                 [Submit (fromNumber c) phone (format alert), Delay 5000,
                  Submit (fromNumber c) phone (format alert)],
                 [Submit (fromNumber c) phone (format alert), Delay 5000,
                  Submit (fromNumber c) phone (format alert), Delay 5000,
                  Submit (fromNumber c) phone (format alert)]}) \<and>
        r = gateway (int (submits tr)) \<and>
        (\<forall>k \<in> {1 ..< int (submits tr)}. \<not> gateway k) \<and>
        (\<not> r \<longrightarrow> submits tr = 3))"
proof (intro conjI impI)
  assume "\<not> isEnabled (newNotificationService cfg twilioInit) \<or> phone_number user = None \<or>
      phone_number user = Some []"
  then show "sendAlert (newNotificationService cfg twilioInit) format gateway alert user
          = (False, [])"
    by (auto simp add: sendAlert_def isEnabled_def)
next
  let ?svc = "newNotificationService cfg twilioInit"
  assume a: "isEnabled ?svc \<and> phone_number user = Some phone \<and> phone \<noteq> [] \<and>
      sendAlert ?svc format gateway alert user = (r, tr)"
  then have en: "enabled ?svc" by (simp add: isEnabled_def)
  from enabled_new [OF en] obtain c where
    c: "twilioClient ?svc" "config ?svc = Some c" "cfg = Some c" by blast
  let ?S = "Submit (fromNumber c) phone (format alert)"
  have j1: "{1 ..< 1 :: int} = {}" and j2: "{1 ..< 2 :: int} = {1}"
    and j3: "{1 ..< 3 :: int} = {1, 2}" by auto
  from a have p: "phone_number user = Some phone" "phone \<noteq> []"
    and sa: "sendAlert ?svc format gateway alert user = (r, tr)"
    by simp_all
  from sa p en c(1,2) have run: "sendLoop ?svc gateway phone (format alert) 2 0 [] = (r, tr)"
    by (simp add: sendAlert_def)
  consider (one) "gateway 1" | (two) "\<not> gateway 1" "gateway 2"
    | (three) "\<not> gateway 1" "\<not> gateway 2"
    by blast
  then have "1 \<le> submits tr \<and> submits tr \<le> 3 \<and>
        delays tr = replicate (submits tr - 1) 5000 \<and>
        tr \<in> {[?S], [?S, Delay 5000, ?S], [?S, Delay 5000, ?S, Delay 5000, ?S]} \<and>
        r = gateway (int (submits tr)) \<and>
        (\<forall>k \<in> {1 ..< int (submits tr)}. \<not> gateway k) \<and>
        (\<not> r \<longrightarrow> submits tr = 3)"
  proof cases
    case one
    with run have "r = True" "tr = [?S]"
      by (simp_all add: sendLoop_2 [OF c(2) c(1)])
    with one show ?thesis by (simp add: submits_def delays_def j1)
  next
    case two
    with run have "r = True" "tr = [?S, Delay 5000, ?S]"
      by (simp_all add: sendLoop_2 [OF c(2) c(1)])
    with two show ?thesis by (simp add: submits_def delays_def j2)
  next
    case three
    with run have "r = gateway 3" "tr = [?S, Delay 5000, ?S, Delay 5000, ?S]"
      by (simp_all add: sendLoop_2 [OF c(2) c(1)])
    with three show ?thesis
      by (simp add: submits_def delays_def j3 numeral_3_eq_3)
  qed
  with c(3) show "1 \<le> submits tr" "submits tr \<le> 3"
    "delays tr = replicate (submits tr - 1) 5000"
    "\<exists>c. cfg = Some c \<and>
           tr \<in> {[Submit (fromNumber c) phone (format alert)],
                 [Submit (fromNumber c) phone (format alert), Delay 5000,
                  Submit (fromNumber c) phone (format alert)],
                 [Submit (fromNumber c) phone (format alert), Delay 5000,
                  Submit (fromNumber c) phone (format alert), Delay 5000,
                  Submit (fromNumber c) phone (format alert)]}"
    "r = gateway (int (submits tr))"
    "\<forall>k \<in> {1 ..< int (submits tr)}. \<not> gateway k"
    by blast+
  assume "\<not> r"
  with \<open>1 \<le> submits tr \<and> _\<close> show "submits tr = 3" by blast
qed

theorem sendAlert_policy_witness:
  "isEnabled (newNotificationService (Some smsConfig) True) \<and>
   phone_number userWithPhone = Some ''+34600000000'' \<and>
   sendAlert (newNotificationService (Some smsConfig) True) formatId gatewayThird alertA1
       userWithPhone
     = (True, [Submit (fromNumber smsConfig) ''+34600000000'' (formatId alertA1), Delay 5000,
               Submit (fromNumber smsConfig) ''+34600000000'' (formatId alertA1), Delay 5000,
               Submit (fromNumber smsConfig) ''+34600000000'' (formatId alertA1)]) \<and>
   submits [Submit (fromNumber smsConfig) ''+34600000000'' (formatId alertA1), Delay 5000,
            Submit (fromNumber smsConfig) ''+34600000000'' (formatId alertA1), Delay 5000,
            Submit (fromNumber smsConfig) ''+34600000000'' (formatId alertA1)] \<le> 3 \<and>
   \<not> isEnabled (newNotificationService None True) \<and>
   sendAlert (newNotificationService None True) formatId gatewayThird alertA1 userWithPhone
     = (False, [])"
proof -
  let ?svc = "newNotificationService (Some smsConfig) True"
  let ?S = "Submit (fromNumber smsConfig) ''+34600000000'' (formatId alertA1)"
  let ?tr = "[?S, Delay 5000, ?S, Delay 5000, ?S]"
  have e: "isEnabled ?svc"
    by (simp add: isEnabled_def newNotificationService_def smsConfig_def)
  have ph: "phone_number userWithPhone = Some ''+34600000000''"
    by (simp add: userWithPhone_def)
  have cf: "config ?svc = Some smsConfig" "twilioClient ?svc"
    by (simp_all add: newNotificationService_def smsConfig_def)
  have s: "sendAlert ?svc formatId gatewayThird alertA1 userWithPhone = (True, ?tr)"
    using e cf
    by (simp add: sendAlert_def isEnabled_def ph sendLoop_2 [OF cf] gatewayThird_def)
  have d: "\<not> isEnabled (newNotificationService None True)"
    by (simp add: isEnabled_def newNotificationService_def)
  note p = sendAlert_policy [where cfg = "Some smsConfig" and twilioInit = True
      and user = userWithPhone and phone = "''+34600000000''" and format = formatId
      and gateway = gatewayThird and alert = alertA1 and r = True and tr = ?tr]
  note q = sendAlert_policy [where cfg = None and twilioInit = True
      and user = userWithPhone and format = formatId and gateway = gatewayThird
      and alert = alertA1]
  have "submits ?tr \<le> 3"
    using conjunct2 [OF p] e ph s by simp
  moreover have "sendAlert (newNotificationService None True) formatId gatewayThird alertA1
       userWithPhone = (False, [])"
    using conjunct1 [OF q] d by blast
  ultimately show ?thesis using e ph s d by (intro conjI)
qed

text \<open>With a gateway that always fails: three submissions, two delays, \<open>false\<close>.\<close>

lemma sendAlert_gatewayDown:
  "sendAlert (newNotificationService (Some smsConfig) True) formatId gatewayDown alertA1
       userWithPhone
     = (False, [Submit (fromNumber smsConfig) ''+34600000000'' (formatId alertA1), Delay 5000,
                Submit (fromNumber smsConfig) ''+34600000000'' (formatId alertA1), Delay 5000,
                Submit (fromNumber smsConfig) ''+34600000000'' (formatId alertA1)])"
proof -
  let ?svc = "newNotificationService (Some smsConfig) True"
  have cf: "config ?svc = Some smsConfig" "twilioClient ?svc" and e: "enabled ?svc"
    by (simp_all add: newNotificationService_def smsConfig_def)
  show ?thesis
    using e cf
    by (simp add: sendAlert_def userWithPhone_def sendLoop_2 [OF cf] gatewayDown_def)
qed

section \<open>MetricsService: success rate and latency windows\<close>

lemma lastN_snoc: "length w \<le> n \<Longrightarrow> 
   (if length (w @ [l]) > n then tl (w @ [l]) else w @ [l]) = lastN n (w @ [l])"
  by (cases w) (auto simp add: lastN_def Suc_diff_le)

lemma lastN_lastN_append: "lastN n (lastN n xs @ ys) = lastN n (xs @ ys)"
proof (cases "n \<le> length xs")
  case True
  then have "length xs + length ys - (length xs - n + n) + (length xs - n)
               = length xs + length ys - n"
    by arith
  with True show ?thesis by (simp add: lastN_def)
next
  case False
  then show ?thesis by (simp add: lastN_def)
qed

lemma length_lastN: "length (lastN n xs) \<le> n"
  by (simp add: lastN_def)

lemma round2_close: "\<bar>round2 x - x\<bar> \<le> 1 / 200"
proof -
  define y where "y = real_of_int \<lfloor>x * 100 + 1 / 2\<rfloor>"
  have "y \<le> x * 100 + 1 / 2" and "x * 100 + 1 / 2 < y + 1"
    unfolding y_def by linarith+
  moreover have "round2 x = y / 100"
    by (simp add: round2_def y_def)
  ultimately show ?thesis by linarith
qed

lemma round2_grid: "\<exists>k::int. round2 x = of_int k / 100"
  by (auto simp add: round2_def)

lemma round2_unit: "0 \<le> x \<Longrightarrow> x \<le> 1 \<Longrightarrow> 0 \<le> round2 x \<and> round2 x \<le> 1"
proof -
  assume a: "0 \<le> x" "x \<le> 1"
  have "(0::int) \<le> \<lfloor>x * 100 + 1 / 2\<rfloor>"
    using a by (simp add: le_floor_iff)
  moreover have "\<lfloor>x * 100 + 1 / 2\<rfloor> \<le> (100::int)"
    using a by (simp add: floor_le_iff)
  ultimately show ?thesis
    by (simp add: round2_def)
qed

text \<open>
  The rate of the specification is within half a hundredth of the exact ratio, is 0 when
  there were no messages, and lies between 0 and 1.
\<close>

lemma spec_successRate_props:
  "(0 < s + f \<longrightarrow> \<bar>spec_successRate s f - real s / real (s + f)\<bar> \<le> 1 / 200) \<and>
   (s + f = 0 \<longrightarrow> spec_successRate s f = 0) \<and>
   0 \<le> spec_successRate s f \<and> spec_successRate s f \<le> 1"
proof -
  have "0 \<le> real s / real (s + f)" by simp
  moreover have "real s / real (s + f) \<le> 1"
  proof (cases "s + f = 0")
    case True
    then show ?thesis by simp
  next
    case False
    then have "0 < s + f" by simp
    then have "0 < real (s + f)" by (simp only: of_nat_0_less_iff)
    moreover have "real s \<le> real (s + f)" by simp
    ultimately show ?thesis by (simp only: divide_le_eq_1_pos)
  qed
  ultimately have "0 \<le> round2 (real s / real (s + f)) \<and> round2 (real s / real (s + f)) \<le> 1"
    by (rule round2_unit)
  then show ?thesis
    using round2_close [of "real s / real (s + f)"]
    by (simp add: spec_successRate_def)
qed

lemma run_snoc: "run (evs @ [ev]) m = applyEvent ev (run evs m)"
  by (simp add: run_def)

lemma run_counters:
  "smsSent (run evs m) = smsSent m + count_list evs RecordSMSSuccess \<and>
   smsFailed (run evs m) = smsFailed m + count_list evs RecordSMSFailure"
proof (induction evs rule: rev_induct)
  case Nil
  show ?case by (simp add: run_def)
next
  case (snoc ev evs)
  then show ?case
    by (cases ev)
       (simp_all add: run_snoc recordAlert_def recordSMSSuccess_def recordSMSFailure_def
          recordOpenMeteoLatency_def recordBackendLatency_def Let_def)
qed

lemma run_windows:
  assumes "length (openMeteoLatencies m) \<le> 100" and "length (backendLatencies m) \<le> 100"
  shows "openMeteoLatencies (run evs m) = lastN 100 (openMeteoLatencies m @ openMeteoSamples evs) \<and>
         backendLatencies (run evs m) = lastN 100 (backendLatencies m @ backendSamples evs)"
proof (induction evs rule: rev_induct)
  case Nil
  from assms show ?case
    by (simp add: run_def lastN_def openMeteoSamples_def backendSamples_def)
next
  case (snoc ev evs)
  have len: "length (lastN 100 xs) \<le> 100" for xs :: "real list"
    by (rule length_lastN)
  show ?case
  proof (cases ev)
    case (RecordOpenMeteoLatency l)
    with snoc show ?thesis
      by (simp add: run_snoc recordOpenMeteoLatency_def Let_def openMeteoSamples_def
            backendSamples_def lastN_snoc [OF len, simplified] lastN_lastN_append
            del: append_assoc add: append_assoc [symmetric])
  next
    case (RecordBackendLatency l)
    with snoc show ?thesis
      by (simp add: run_snoc recordBackendLatency_def Let_def openMeteoSamples_def
            backendSamples_def lastN_snoc [OF len, simplified] lastN_lastN_append
            del: append_assoc add: append_assoc [symmetric])
  qed (use snoc in \<open>simp_all add: run_snoc recordAlert_def recordSMSSuccess_def
         recordSMSFailure_def openMeteoSamples_def backendSamples_def Let_def\<close>)
qed

text \<open>
  Rounding to a double: powers of two, the exponent found by \<open>expo\<close>, and the relative
  error of \<open>fl\<close>, at most \<open>2 ^ -53\<close>.
\<close>

lemma pow2_pos: "0 < pow2 e"
  by (simp add: pow2_def)

lemma pow2_Suc: "pow2 (e + 1) = 2 * pow2 e"
proof (cases "0 \<le> e")
  case True
  then show ?thesis by (simp add: pow2_def nat_add_distrib)
next
  case False
  then have "nat (- e) = Suc (nat (- (e + 1)))" by simp
  with False show ?thesis by (simp add: pow2_def)
qed

lemma pow2_pred: "pow2 (e - 1) = pow2 e / 2"
  using pow2_Suc [of "e - 1"] by simp

lemma pow2_diff_52: "pow2 (e - 52) = pow2 e / 2 ^ 52"
proof -
  have "pow2 (e - int n) = pow2 e / 2 ^ n" for n
  proof (induction n)
    case 0
    show ?case by simp
  next
    case (Suc n)
    have "pow2 (e - int (Suc n)) = pow2 (e - int n - 1)" by (simp add: algebra_simps)
    also have "\<dots> = pow2 (e - int n) / 2" by (rule pow2_pred)
    finally show ?case using Suc by simp
  qed
  from this [of 52] show ?thesis by simp
qed

lemma expo_bounds: "0 < x \<Longrightarrow> pow2 (expo x) \<le> x \<and> x < pow2 (expo x + 1)"
proof (induction x rule: expo.induct)
  case (1 x)
  show ?case
  proof (cases "x < 1")
    case True
    with "1.prems" have e: "expo x = expo (2 * x) - 1"
      by (simp add: expo.simps [of x])
    from "1.IH"(1) True "1.prems"
    have "pow2 (expo (2 * x)) \<le> 2 * x \<and> 2 * x < pow2 (expo (2 * x) + 1)" by simp
    then show ?thesis
      unfolding e by (simp add: pow2_pred pow2_Suc)
  next
    case False
    show ?thesis
    proof (cases "2 \<le> x")
      case True
      with False "1.prems" have e: "expo x = expo (x / 2) + 1"
        by (simp add: expo.simps [of x])
      from "1.IH"(2) True False "1.prems"
      have "pow2 (expo (x / 2)) \<le> x / 2 \<and> x / 2 < pow2 (expo (x / 2) + 1)" by simp
      then show ?thesis
        unfolding e
        using pow2_Suc [of "expo (x / 2)"] pow2_Suc [of "expo (x / 2) + 1"]
        by linarith
    next
      case b: False
      with False "1.prems" have "expo x = 0" by (simp add: expo.simps [of x])
      with False b show ?thesis by (simp add: pow2_def)
    qed
  qed
qed

lemma rne_close: "\<bar>of_int (rne y) - y\<bar> \<le> 1 / 2"
  unfolding rne_def Let_def by (auto simp add: abs_le_iff)

lemma rne_nonneg: "0 \<le> y \<Longrightarrow> 0 \<le> rne y"
  unfolding rne_def Let_def by (auto simp add: le_floor_iff) 

lemma fl_nonneg: "0 \<le> x \<Longrightarrow> 0 \<le> fl x"
proof (cases "x = 0")
  case True
  then show ?thesis by (simp add: fl_def)
next
  case False
  assume "0 \<le> x"
  with False have x: "0 < x" by simp
  have "0 \<le> rne (x / pow2 (expo x - 52))"
    using x pow2_pos [of "expo x - 52"] by (intro rne_nonneg) simp
  then show ?thesis
    using x pow2_pos [of "expo x - 52"] by (simp add: fl_def Let_def)
qed

lemma fl_error: "0 \<le> x \<Longrightarrow> \<bar>fl x - x\<bar> \<le> x / 2 ^ 53"
proof (cases "x = 0")
  case True
  then show ?thesis by (simp add: fl_def)
next
  case False
  assume "0 \<le> x"
  with False have x: "0 < x" by simp
  define p where "p = pow2 (expo x - 52)"
  define y where "y = x / p"
  have p: "0 < p" by (simp add: p_def pow2_pos)
  have xy: "x = y * p" using p by (simp add: y_def)
  have "pow2 (expo x) \<le> x" using expo_bounds [OF x] by simp
  then have "p * 2 ^ 52 \<le> x" by (simp add: p_def pow2_diff_52)
  then have y52: "2 ^ 52 \<le> y" using p by (simp add: y_def pos_le_divide_eq mult.commute)
  have f: "fl x = of_int (rne y) * p"
    using x by (simp add: fl_def Let_def p_def y_def)
  have "fl x - x = of_int (rne y) * p - y * p"
    by (simp only: f xy [symmetric])
  also have "\<dots> = (of_int (rne y) - y) * p"
    by (simp add: algebra_simps)
  finally have "\<bar>fl x - x\<bar> = \<bar>of_int (rne y) - y\<bar> * p"
    using p by (simp add: abs_mult)
  also have "\<dots> \<le> 1 / 2 * p"
    using rne_close [of y] p by (intro mult_right_mono) simp_all
  also have "\<dots> \<le> y / 2 ^ 53 * p"
    using y52 p by (intro mult_right_mono) simp_all
  also have "\<dots> = x / 2 ^ 53" by (simp add: xy)
  finally show ?thesis .
qed

lemma fl_chain_error:
  assumes "0 \<le> r" and "r \<le> 1"
  shows "\<bar>fl (fl r * 100) - 100 * r\<bar> < 1 / 2 ^ 45"
proof -
  define y where "y = fl r"
  define z where "z = fl (y * 100)"
  have y0: "0 \<le> y" using assms(1) by (simp add: y_def fl_nonneg)
  have e1: "\<bar>y - r\<bar> \<le> r / 2 ^ 53"
    unfolding y_def using assms(1) by (rule fl_error)
  have "r / 2 ^ 53 \<le> 1 / 2 ^ 53"
    using assms(2) by (simp add: divide_right_mono)
  with e1 have e1': "\<bar>y - r\<bar> \<le> 1 / 2 ^ 53" by linarith
  moreover have "(1::real) / 2 ^ 53 \<le> 1 / 2" by simp
  ultimately have y2: "y \<le> 3 / 2" using assms(2) by linarith
  have e2: "\<bar>z - y * 100\<bar> \<le> y * 100 / 2 ^ 53"
    unfolding z_def using y0 by (intro fl_error) simp
  have "y * 100 / 2 ^ 53 \<le> 150 / 2 ^ 53"
    using y2 by (simp add: divide_right_mono)
  with e2 have e2': "\<bar>z - y * 100\<bar> \<le> 150 / 2 ^ 53" by linarith
  from e1' have a: "y - r \<le> 1 / 2 ^ 53" "r - y \<le> 1 / 2 ^ 53" by linarith+
  from e2' have b: "z - y * 100 \<le> 150 / 2 ^ 53" "y * 100 - z \<le> 150 / 2 ^ 53" by linarith+
  have c: "150 / 2 ^ 53 + 100 * (1 / 2 ^ 53) < (1::real) / 2 ^ 45" by simp
  from a b c have "z - 100 * r < 1 / 2 ^ 45" "100 * r - z < 1 / 2 ^ 45" by linarith+
  then have "\<bar>z - 100 * r\<bar> < 1 / 2 ^ 45" by linarith
  then show ?thesis by (simp add: z_def y_def)
qed

lemma rate_nearest:
  fixes s t :: nat
  assumes t: "0 < t" and st: "s \<le> t" and big: "t \<le> 2 ^ 44"
  shows "\<bar>of_int \<lfloor>fl (fl (real s / real t) * 100) + 1 / 2\<rfloor> - 100 * (real s / real t)\<bar> \<le> 1 / 2"
proof -
  define r where "r = real s / real t"
  define z where "z = fl (fl r * 100)"
  define k where "k = \<lfloor>z + 1 / 2\<rfloor>"
  have T: "0 < real t" using t by simp
  have r01: "0 \<le> r" "r \<le> 1" using t st by (simp_all add: r_def)
  have d: "\<bar>z - 100 * r\<bar> < 1 / 2 ^ 45"
    unfolding z_def using r01 by (rule fl_chain_error)
  have k1: "of_int k \<le> z + 1 / 2" and k2: "z + 1 / 2 < of_int k + 1"
    unfolding k_def by linarith+
  have tb: "1 / 2 ^ 45 \<le> 1 / (2 * real t)"
  proof -
    have "real t \<le> 2 ^ 44" using big by (metis of_nat_le_iff of_nat_numeral of_nat_power)
    then have "2 * real t \<le> 2 ^ 45" by simp
    with T show ?thesis by (intro divide_left_mono) simp_all
  qed
  have rt: "r * real t = real s" using T by (simp add: r_def)
  have "100 * r * (2 * real t) = 200 * (r * real t)" by (simp add: algebra_simps)
  then have rt2: "100 * r * (2 * real t) = 200 * real s" by (simp only: rt)
  have up: "of_int k - 100 * r \<le> 1 / 2"
  proof (rule ccontr)
    assume "\<not> of_int k - 100 * r \<le> 1 / 2"
    then have "1 / 2 + 100 * r < of_int k" by simp
    then have "(1 / 2 + 100 * r) * (2 * real t) < of_int k * (2 * real t)"
      using T by (intro mult_strict_right_mono) simp_all
    moreover have "(1 / 2 + 100 * r) * (2 * real t) = real t + 100 * r * (2 * real t)"
      by (simp add: algebra_simps)
    ultimately have "real t + 200 * real s < 2 * of_int k * real t"
      using rt2 by (simp only:)
    then have "real_of_int (int t + 200 * int s) < real_of_int (2 * k * int t)"
      by simp
    then have "int t + 200 * int s < 2 * k * int t"
      by (simp only: of_int_less_iff)
    then have "int t + 200 * int s + 1 \<le> 2 * k * int t" by simp
    then have "real_of_int (int t + 200 * int s + 1) \<le> real_of_int (2 * k * int t)"
      by (simp only: of_int_le_iff)
    then have "real t + 200 * real s + 1 \<le> 2 * of_int k * real t" by simp
    then have "(real t + 200 * real s + 1) / (2 * real t) \<le> 2 * of_int k * real t / (2 * real t)"
      using T by (intro divide_right_mono) simp_all
    then have "1 / 2 + 100 * r + 1 / (2 * real t) \<le> of_int k"
      using T by (simp add: r_def field_simps)
    with tb k1 d show False by (simp add: abs_less_iff) 
  qed
  have lo: "100 * r - of_int k \<le> 1 / 2"
  proof (rule ccontr)
    assume "\<not> 100 * r - of_int k \<le> 1 / 2"
    then have "of_int k + 1 / 2 < 100 * r" by simp
    then have "(of_int k + 1 / 2) * (2 * real t) < 100 * r * (2 * real t)"
      using T by (intro mult_strict_right_mono) simp_all
    moreover have "(of_int k + 1 / 2) * (2 * real t) = 2 * of_int k * real t + real t"
      by (simp add: algebra_simps)
    ultimately have "2 * of_int k * real t + real t < 200 * real s"
      using rt2 by (simp only:)
    then have "real_of_int (2 * k * int t + int t) < real_of_int (200 * int s)"
      by simp
    then have "2 * k * int t + int t < 200 * int s"
      by (simp only: of_int_less_iff)
    then have "2 * k * int t + int t + 1 \<le> 200 * int s" by simp
    then have "real_of_int (2 * k * int t + int t + 1) \<le> real_of_int (200 * int s)"
      by (simp only: of_int_le_iff)
    then have "2 * of_int k * real t + real t + 1 \<le> 200 * real s" by simp
    then have "(2 * of_int k * real t + real t + 1) / (2 * real t) \<le> 200 * real s / (2 * real t)"
      using T by (intro divide_right_mono) simp_all
    then have "of_int k + 1 / 2 + 1 / (2 * real t) \<le> 100 * r"
      using T by (simp add: r_def field_simps)
    with tb k2 d show False by (simp add: abs_less_iff)
  qed
  from up lo have "\<bar>of_int k - 100 * r\<bar> \<le> 1 / 2" by linarith
  then show ?thesis by (simp add: k_def z_def r_def)
qed

lemma count_list_replicate_same: "count_list (replicate n x) y = (if x = y then n else 0)"
  by (induction n) auto

lemma samples_replicate:
  "openMeteoSamples (replicate n (RecordOpenMeteoLatency l)) = replicate n l"
  by (induction n) (simp_all add: openMeteoSamples_def)

lemma fl_0: "fl 0 = 0"
  by (simp add: fl_def)

lemma successRate_getMetrics:
  "successRate (sms (getMetrics now m)) =
     (if 0 < smsSent m + smsFailed m
      then fl (of_int \<lfloor>fl (fl (real (smsSent m) / real (smsSent m + smsFailed m)) * 100) + 1 / 2\<rfloor> / 100)
      else 0)"
  by (simp add: getMetrics_def Let_def Math_round_def fl_0)

lemma nearest_off_tie:
  fixes w :: real
  assumes "\<bar>of_int k - w\<bar> \<le> 1 / 2" and "frac w \<noteq> 1 / 2"
  shows "\<lfloor>w + 1 / 2\<rfloor> = k"
proof -
  have "w - of_int k \<noteq> 1 / 2"
  proof
    assume "w - of_int k = 1 / 2"
    then have e: "w = of_int k + 1 / 2" by simp
    have "\<lfloor>of_int k + 1 / 2 :: real\<rfloor> = k" by linarith
    then have "frac w = 1 / 2" unfolding e frac_def by simp
    with assms(2) show False by simp
  qed
  with assms(1) have "of_int k \<le> w + 1 / 2" "w + 1 / 2 < of_int k + 1" by linarith+
  then show ?thesis by linarith
qed

text \<open>
  The computation of the rate, \<open>Math.round(successRate * 100)\<close> on the rounded quotient and
  the rounded product, yields an integer within one half of the exact ratio times 100
  (core of the argument: the two roundings move the product by less than \<open>2 ^ -45\<close>,
  while a ratio with a denominator of at most \<open>2 ^ 44\<close> that is not exactly halfway
  between two integers stays at least \<open>2 ^ -45\<close> away from the halfway point).
\<close>

lemma fl_1: "fl 1 = 1"
  by (simp add: fl_def expo.simps pow2_def rne_def Let_def)

lemma fl_hundredth_le_1:
  assumes "0 \<le> k" and "k \<le> 100"
  shows "fl (of_int k / 100) \<le> 1"
proof (cases "k = 100")
  case True
  then show ?thesis by (simp add: fl_1)
next
  case False
  with assms have "k \<le> 99" by simp
  then have "real_of_int k \<le> 99" by (metis of_int_le_iff of_int_numeral)
  then have u: "real_of_int k / 100 \<le> 99 / 100" by simp
  have n: "0 \<le> real_of_int k / 100" using assms(1) by simp
  from fl_error [OF n] have "fl (of_int k / 100) \<le> of_int k / 100 + of_int k / 100 / 2 ^ 53"
    by linarith
  moreover have "real_of_int k / 100 / 2 ^ 53 \<le> 99 / 100 / 2 ^ 53"
    using u by (intro divide_right_mono) simp_all
  moreover have "(99::real) / 100 + 99 / 100 / 2 ^ 53 \<le> 1" by simp
  ultimately show ?thesis using u by linarith
qed

lemma successRate_core:
  fixes s f :: nat
  assumes pos: "0 < s + f" and big: "s + f \<le> 2 ^ 44"
  defines "r \<equiv> real s / real (s + f)"
  defines "k \<equiv> \<lfloor>fl (fl r * 100) + 1 / 2\<rfloor>"
  shows "0 \<le> k" and "k \<le> 100"
    and "\<bar>of_int k / 100 - r\<bar> \<le> 1 / 200"
    and "frac (100 * r) \<noteq> 1 / 2 \<Longrightarrow> of_int k / 100 = spec_successRate s f"
    and "\<bar>fl (of_int k / 100) - r\<bar> \<le> 1 / 200 + 1 / 2 ^ 53"
    and "0 \<le> fl (of_int k / 100)" and "fl (of_int k / 100) \<le> 1"
proof -
  have "0 < real (s + f)" using pos by (simp only: of_nat_0_less_iff)
  moreover have "real s \<le> real (s + f)" by simp
  ultimately have "real s / real (s + f) \<le> 1" by (simp only: divide_le_eq_1_pos)
  then have r01: "0 \<le> r" "r \<le> 1" by (simp_all add: r_def)
  have n: "\<bar>of_int k - 100 * r\<bar> \<le> 1 / 2"
    unfolding k_def r_def using pos _ big by (rule rate_nearest) simp
  from n r01 have "real_of_int (- 1) < of_int k" "of_int k < real_of_int 101" by linarith+
  then have "- 1 < k" "k < 101" by (simp_all only: of_int_less_iff)
  then show k0: "0 \<le> k" and k100: "k \<le> 100" by simp_all
  from n show c: "\<bar>of_int k / 100 - r\<bar> \<le> 1 / 200" by linarith
  have kr: "0 \<le> real_of_int k / 100" "real_of_int k / 100 \<le> 1"
    using k0 k100 by simp_all
  from fl_error [OF kr(1)] have "\<bar>fl (of_int k / 100) - of_int k / 100\<bar> \<le> of_int k / 100 / 2 ^ 53" .
  moreover have "real_of_int k / 100 / 2 ^ 53 \<le> 1 / 2 ^ 53"
    using kr(2) by (intro divide_right_mono) simp_all
  ultimately show "\<bar>fl (of_int k / 100) - r\<bar> \<le> 1 / 200 + 1 / 2 ^ 53"
    using c by linarith
  show "0 \<le> fl (of_int k / 100)" using kr(1) by (rule fl_nonneg)
  show "fl (of_int k / 100) \<le> 1" using k0 k100 by (rule fl_hundredth_le_1)
  assume "frac (100 * r) \<noteq> 1 / 2"
  with n have "\<lfloor>100 * r + 1 / 2\<rfloor> = k" by (rule nearest_off_tie)
  then have "round2 r = of_int k / 100"
    by (simp add: round2_def mult.commute)
  then show "of_int k / 100 = spec_successRate s f"
    using pos by (simp add: spec_successRate_def r_def)
qed

lemma openMeteoSamples_append:
  "openMeteoSamples (xs @ ys) = openMeteoSamples xs @ openMeteoSamples ys"
  by (simp add: openMeteoSamples_def)

text \<open>
  C8, as stated, fails at 23 successes and 17 failures. The exact ratio 23/40 = 0.575 is
  0.58 when rounded to two decimals. In the code the quotient is the double nearest to
  0.575, which lies below it, the product with 100 is the double 57.49999999999999,
  \<open>Math.round\<close> gives 57, and the reported rate is the double nearest to 0.57.
\<close>

theorem successRate_tie_counterexample:
  "successRate (sms (getMetrics 0 (run events23of40 (newMetricsService 0)))) = fl (57 / 100) \<and>
   spec_successRate 23 17 = 58 / 100 \<and>
   fl (57 / 100) < 57 / 100 \<and>
   successRate (sms (getMetrics 0 (run events23of40 (newMetricsService 0))))
     \<noteq> spec_successRate 23 17 \<and>
   successRate (sms (getMetrics 0 (run events23of40 (newMetricsService 0))))
     \<noteq> fl (spec_successRate 23 17)"
proof -
  let ?m = "run events23of40 (newMetricsService 0)"
  have c: "smsSent ?m = 23" "smsFailed ?m = 17"
    using run_counters [of events23of40 "newMetricsService 0"]
    by (simp_all add: events23of40_def newMetricsService_def count_list_replicate_same)
  have k: "\<lfloor>fl (fl (23 / 40) * 100) + 1 / 2\<rfloor> = 57"
    by (simp add: fl_def expo.simps pow2_def rne_def Let_def)
  have r: "successRate (sms (getMetrics 0 ?m)) = fl (57 / 100)"
    by (simp add: successRate_getMetrics c k)
  have s: "spec_successRate 23 17 = 58 / 100"
    by (simp add: spec_successRate_def round2_def)
  have v: "fl (57 / 100) = 5134103575202365 / 2 ^ 53"
    by (simp add: fl_def expo.simps pow2_def rne_def Let_def)
  have w: "fl (spec_successRate 23 17) = 5224175567749775 / 2 ^ 53"
    by (simp add: s fl_def expo.simps pow2_def rne_def Let_def)
  have lt: "fl (57 / 100) < 57 / 100" by (simp add: v)
  have n1: "successRate (sms (getMetrics 0 ?m)) \<noteq> spec_successRate 23 17"
    by (simp add: r s v)
  have n2: "successRate (sms (getMetrics 0 ?m)) \<noteq> fl (spec_successRate 23 17)"
    by (simp add: r v w)
  from r s lt n1 n2 show ?thesis by (intro conjI)
qed

text \<open>
  C8, amended. Start from a service whose two latency windows hold at most 100 samples (a
  new or a reset service has empty ones), apply any sequence of recordings, and let the
  number of messages stay within \<open>2 ^ 44\<close>. Then \<open>getMetrics\<close> reports the counts of
  successes and failures, and a success rate that is 0 when there was no message and
  otherwise the double nearest to a hundredth \<open>k / 100\<close>, \<open>0 \<le> k \<le> 100\<close>, that is within 0.005
  of the exact ratio sent / (sent + failed). Unless the exact ratio lies exactly halfway
  between two hundredths, this is the ratio rounded to two decimals (a half upwards); in
  the halfway case it may be the lower neighbour. The rate lies between 0 and 1. Each
  latency window holds the last 100 samples recorded for its API, never more than 100.
\<close>

theorem metrics_rate_nearest_and_windows:
  assumes "length (openMeteoLatencies m0) \<le> 100" and "length (backendLatencies m0) \<le> 100"
    and "smsSent (run evs m0) + smsFailed (run evs m0) \<le> 2 ^ 44"
  shows
    "sent (sms (getMetrics now (run evs m0))) = smsSent m0 + count_list evs RecordSMSSuccess \<and>
     failed (sms (getMetrics now (run evs m0))) = smsFailed m0 + count_list evs RecordSMSFailure \<and>
     (sent (sms (getMetrics now (run evs m0))) + failed (sms (getMetrics now (run evs m0))) = 0
        \<longrightarrow> successRate (sms (getMetrics now (run evs m0))) = 0) \<and>
     (0 < sent (sms (getMetrics now (run evs m0))) + failed (sms (getMetrics now (run evs m0)))
        \<longrightarrow> (\<exists>k. successRate (sms (getMetrics now (run evs m0))) = fl (of_int k / 100) \<and>
                 0 \<le> k \<and> k \<le> 100 \<and>
                 \<bar>of_int k / 100
                   - real (sent (sms (getMetrics now (run evs m0))))
                     / real (sent (sms (getMetrics now (run evs m0)))
                             + failed (sms (getMetrics now (run evs m0))))\<bar> \<le> 1 / 200)) \<and>
     (0 < sent (sms (getMetrics now (run evs m0))) + failed (sms (getMetrics now (run evs m0))) \<and>
      frac (100 * (real (sent (sms (getMetrics now (run evs m0))))
                   / real (sent (sms (getMetrics now (run evs m0)))
                           + failed (sms (getMetrics now (run evs m0)))))) \<noteq> 1 / 2
        \<longrightarrow> successRate (sms (getMetrics now (run evs m0)))
              = fl (spec_successRate (sent (sms (getMetrics now (run evs m0))))
                      (failed (sms (getMetrics now (run evs m0)))))) \<and>
     (0 < sent (sms (getMetrics now (run evs m0))) + failed (sms (getMetrics now (run evs m0)))
        \<longrightarrow> \<bar>successRate (sms (getMetrics now (run evs m0)))
               - real (sent (sms (getMetrics now (run evs m0))))
                 / real (sent (sms (getMetrics now (run evs m0)))
                         + failed (sms (getMetrics now (run evs m0))))\<bar>
              \<le> 1 / 200 + 1 / 2 ^ 53) \<and>
     0 \<le> successRate (sms (getMetrics now (run evs m0))) \<and>
     successRate (sms (getMetrics now (run evs m0))) \<le> 1 \<and>
     openMeteoLatencies (run evs m0)
       = lastN 100 (openMeteoLatencies m0 @ openMeteoSamples evs) \<and>
     backendLatencies (run evs m0)
       = lastN 100 (backendLatencies m0 @ backendSamples evs) \<and>
     length (openMeteoLatencies (run evs m0)) \<le> 100 \<and>
     length (backendLatencies (run evs m0)) \<le> 100 \<and>
     count (openmeteo (getMetrics now (run evs m0))) \<le> 100 \<and>
     count (backend (getMetrics now (run evs m0))) \<le> 100"
proof -
  let ?m = "run evs m0"
  let ?S = "sms (getMetrics now ?m)"
  let ?s = "smsSent ?m" and ?f = "smsFailed ?m"
  let ?k = "\<lfloor>fl (fl (real ?s / real (?s + ?f)) * 100) + 1 / 2\<rfloor>"
  note w = run_windows [OF assms(1,2), of evs]
  note w1 = conjunct1 [OF w] and w2 = conjunct2 [OF w]
  have l1: "length (openMeteoLatencies ?m) \<le> 100"
    using w by (simp add: length_lastN)
  have l2: "length (backendLatencies ?m) \<le> 100"
    using w by (simp add: length_lastN)
  have c: "count (calculateLatencyStats xs) = length xs" for xs
    by (simp add: calculateLatencyStats_def Let_def)
  have s: "sent ?S = ?s" "failed ?S = ?f"
    by (simp_all add: getMetrics_def Let_def)
  have n: "sent ?S = smsSent m0 + count_list evs RecordSMSSuccess"
    "failed ?S = smsFailed m0 + count_list evs RecordSMSFailure"
    using run_counters [of evs m0] by (simp_all only: s)
  have k: "count (openmeteo (getMetrics now ?m)) \<le> 100"
    "count (backend (getMetrics now ?m)) \<le> 100"
    using l1 l2 by (simp_all add: getMetrics_def Let_def c)
  have z: "?s + ?f = 0 \<longrightarrow> successRate ?S = 0"
    by (simp add: successRate_getMetrics)
  have v: "successRate ?S = fl (of_int ?k / 100)" if "0 < ?s + ?f"
    using that by (simp add: successRate_getMetrics)
  have a: "0 < ?s + ?f \<longrightarrow>
             (\<exists>k. successRate ?S = fl (of_int k / 100) \<and> 0 \<le> k \<and> k \<le> 100 \<and>
                  \<bar>of_int k / 100 - real ?s / real (?s + ?f)\<bar> \<le> 1 / 200)"
  proof
    assume p: "0 < ?s + ?f"
    from v [OF p] successRate_core(1,2,3) [OF p assms(3)]
    show "\<exists>k. successRate ?S = fl (of_int k / 100) \<and> 0 \<le> k \<and> k \<le> 100 \<and>
                  \<bar>of_int k / 100 - real ?s / real (?s + ?f)\<bar> \<le> 1 / 200"
      by blast
  qed
  have b: "0 < ?s + ?f \<and> frac (100 * (real ?s / real (?s + ?f))) \<noteq> 1 / 2 \<longrightarrow>
             successRate ?S = fl (spec_successRate ?s ?f)"
  proof
    assume "0 < ?s + ?f \<and> frac (100 * (real ?s / real (?s + ?f))) \<noteq> 1 / 2"
    then have p: "0 < ?s + ?f" and t: "frac (100 * (real ?s / real (?s + ?f))) \<noteq> 1 / 2"
      by simp_all
    from successRate_core(4) [OF p assms(3) t] v [OF p]
    show "successRate ?S = fl (spec_successRate ?s ?f)" by simp
  qed
  have d: "0 < ?s + ?f \<longrightarrow>
             \<bar>successRate ?S - real ?s / real (?s + ?f)\<bar> \<le> 1 / 200 + 1 / 2 ^ 53"
  proof
    assume p: "0 < ?s + ?f"
    from successRate_core(5) [OF p assms(3)] v [OF p]
    show "\<bar>successRate ?S - real ?s / real (?s + ?f)\<bar> \<le> 1 / 200 + 1 / 2 ^ 53" by simp
  qed
  have e: "0 \<le> successRate ?S" "successRate ?S \<le> 1"
  proof -
    show "0 \<le> successRate ?S"
    proof (cases "0 < ?s + ?f")
      case True
      from successRate_core(6) [OF True assms(3)] v [OF True] show ?thesis by simp
    next
      case False
      then show ?thesis by (simp add: successRate_getMetrics)
    qed
    show "successRate ?S \<le> 1"
    proof (cases "0 < ?s + ?f")
      case True
      from successRate_core(7) [OF True assms(3)] v [OF True] show ?thesis by simp
    next
      case False
      then show ?thesis by (simp add: successRate_getMetrics)
    qed
  qed
  from n z a b d e w1 w2 l1 l2 k show ?thesis
    unfolding s by (intro conjI)
qed

theorem metrics_rate_nearest_and_windows_witness:
  "length (openMeteoLatencies (newMetricsService 0)) \<le> 100 \<and>
   length (backendLatencies (newMetricsService 0)) \<le> 100 \<and>
   smsSent (run events101 (newMetricsService 0)) + smsFailed (run events101 (newMetricsService 0))
     \<le> 2 ^ 44 \<and>
   sent (sms (getMetrics 5000 (run events101 (newMetricsService 0)))) = 2 \<and>
   failed (sms (getMetrics 5000 (run events101 (newMetricsService 0)))) = 1 \<and>
   successRate (sms (getMetrics 5000 (run events101 (newMetricsService 0)))) = fl (67 / 100) \<and>
   length (openMeteoSamples events101) = 101 \<and>
   openMeteoLatencies (run events101 (newMetricsService 0)) = replicate 100 5 \<and>
   count (openmeteo (getMetrics 5000 (run events101 (newMetricsService 0)))) = 100"
proof -
  let ?m = "run events101 (newMetricsService 0)"
  let ?S = "sms (getMetrics 5000 ?m)"
  have a: "length (openMeteoLatencies (newMetricsService 0)) \<le> 100"
    and b: "length (backendLatencies (newMetricsService 0)) \<le> 100"
    by (simp_all add: newMetricsService_def)
  have c: "smsSent ?m = 2" "smsFailed ?m = 1"
    using run_counters [of events101 "newMetricsService 0"]
    by (simp_all add: events101_def newMetricsService_def count_list_replicate_same)
  have h: "smsSent ?m + smsFailed ?m \<le> 2 ^ 44"
    by (simp add: c)
  note t = metrics_rate_nearest_and_windows [OF a b h, of 5000]
  have n: "sent ?S = 2" "failed ?S = 1"
    by (simp_all add: getMetrics_def Let_def c)
  have tie: "0 < sent ?S + failed ?S \<and>
             frac (100 * (real (sent ?S) / real (sent ?S + failed ?S))) \<noteq> 1 / 2"
    by (simp add: n frac_def)
  have sp: "spec_successRate (sent ?S) (failed ?S) = 67 / 100"
    by (simp add: n spec_successRate_def round2_def)
  from t have "0 < sent ?S + failed ?S \<and>
               frac (100 * (real (sent ?S) / real (sent ?S + failed ?S))) \<noteq> 1 / 2
               \<longrightarrow> successRate ?S = fl (spec_successRate (sent ?S) (failed ?S))"
    by blast
  with tie have "successRate ?S = fl (spec_successRate (sent ?S) (failed ?S))"
    by (rule rev_mp)
  then have r: "successRate ?S = fl (67 / 100)"
    by (simp only: sp)
  have sm: "openMeteoSamples events101 = 999 # replicate 100 5"
    by (simp add: events101_def openMeteoSamples_append samples_replicate)
       (simp add: openMeteoSamples_def)
  have ln: "length (openMeteoSamples events101) = 101"
    by (simp add: sm)
  from t have "openMeteoLatencies ?m
                 = lastN 100 (openMeteoLatencies (newMetricsService 0) @ openMeteoSamples events101)"
    by blast
  also have "\<dots> = replicate 100 5"
    by (simp add: sm newMetricsService_def lastN_def)
  finally have w: "openMeteoLatencies ?m = replicate 100 5" .
  have k: "count (openmeteo (getMetrics 5000 ?m)) = 100"
    by (simp add: getMetrics_def Let_def calculateLatencyStats_def w)
  from a b h n r ln w k show ?thesis by (intro conjI)
qed

section \<open>AlertHistoryService: falsy filters\<close>

text \<open>
  C10. A filter whose \<open>userId\<close> is 0, or whose \<open>gardenId\<close> or \<open>alertType\<close> is the empty
  string, builds the same query as a filter without that field: the query has no
  condition on it, \<open>getAlertHistory\<close> returns what it returns without the field, and
  whether a document is selected does not depend on the document's value of the field.
\<close>

theorem falsy_filters_ignored:
  "buildQuery (filters\<lparr>f_userId := Some 0\<rparr>) = buildQuery (filters\<lparr>f_userId := None\<rparr>) \<and>
   buildQuery (filters\<lparr>f_gardenId := Some []\<rparr>) = buildQuery (filters\<lparr>f_gardenId := None\<rparr>) \<and>
   buildQuery (filters\<lparr>f_alertType := Some []\<rparr>) = buildQuery (filters\<lparr>f_alertType := None\<rparr>) \<and>
   q_userId (buildQuery (filters\<lparr>f_userId := Some 0\<rparr>)) = None \<and>
   q_gardenId (buildQuery (filters\<lparr>f_gardenId := Some []\<rparr>)) = None \<and>
   q_alertType (buildQuery (filters\<lparr>f_alertType := Some []\<rparr>)) = None \<and>
   getAlertHistory svc findDocs (filters\<lparr>f_userId := Some 0\<rparr>) limit
     = getAlertHistory svc findDocs (filters\<lparr>f_userId := None\<rparr>) limit \<and>
   getAlertHistory svc findDocs (filters\<lparr>f_gardenId := Some []\<rparr>) limit
     = getAlertHistory svc findDocs (filters\<lparr>f_gardenId := None\<rparr>) limit \<and>
   getAlertHistory svc findDocs (filters\<lparr>f_alertType := Some []\<rparr>) limit
     = getAlertHistory svc findDocs (filters\<lparr>f_alertType := None\<rparr>) limit \<and>
   matches (buildQuery (filters\<lparr>f_userId := Some 0\<rparr>)) (doc\<lparr>a_userId := u\<rparr>)
     = matches (buildQuery (filters\<lparr>f_userId := Some 0\<rparr>)) doc \<and>
   matches (buildQuery (filters\<lparr>f_gardenId := Some []\<rparr>)) (doc\<lparr>a_gardenId := gid\<rparr>)
     = matches (buildQuery (filters\<lparr>f_gardenId := Some []\<rparr>)) doc \<and>
   matches (buildQuery (filters\<lparr>f_alertType := Some []\<rparr>)) (doc\<lparr>alertType := ty\<rparr>)
     = matches (buildQuery (filters\<lparr>f_alertType := Some []\<rparr>)) doc"
proof -
  have q: "buildQuery (filters\<lparr>f_userId := Some 0\<rparr>) = buildQuery (filters\<lparr>f_userId := None\<rparr>)"
    "buildQuery (filters\<lparr>f_gardenId := Some []\<rparr>) = buildQuery (filters\<lparr>f_gardenId := None\<rparr>)"
    "buildQuery (filters\<lparr>f_alertType := Some []\<rparr>) = buildQuery (filters\<lparr>f_alertType := None\<rparr>)"
    by (simp_all add: buildQuery_def truthyString_def truthyNumber_def Let_def)
  have n: "q_userId (buildQuery (filters\<lparr>f_userId := None\<rparr>)) = None"
    "q_gardenId (buildQuery (filters\<lparr>f_gardenId := None\<rparr>)) = None"
    "q_alertType (buildQuery (filters\<lparr>f_alertType := None\<rparr>)) = None"
    by (simp_all add: buildQuery_def truthyString_def truthyNumber_def Let_def emptyQuery_def)
  have h: "getAlertHistory svc findDocs f1 limit = getAlertHistory svc findDocs f2 limit"
    if "buildQuery f1 = buildQuery f2" for f1 f2
    using that by (simp add: getAlertHistory_def)
  have m: "matches qq (doc\<lparr>a_userId := u\<rparr>) = matches qq doc" if "q_userId qq = None" for qq
    using that by (simp add: matches_def split: option.splits prod.splits)
  have m2: "matches qq (doc\<lparr>a_gardenId := gid\<rparr>) = matches qq doc" if "q_gardenId qq = None" for qq
    using that by (simp add: matches_def split: option.splits prod.splits)
  have m3: "matches qq (doc\<lparr>alertType := ty\<rparr>) = matches qq doc" if "q_alertType qq = None" for qq
    using that by (simp add: matches_def split: option.splits prod.splits)
  show ?thesis
    using q n h [OF q(1)] h [OF q(2)] h [OF q(3)] m m2 m3 by simp
qed

theorem falsy_filters_ignored_witness:
  "a_userId docA1 = 1 \<and>
   getAlertHistory connected storeA1 (noFilters\<lparr>f_userId := Some 0\<rparr>) 100 = [docA1] \<and>
   getAlertHistory connected storeA1 (noFilters\<lparr>f_userId := None\<rparr>) 100 = [docA1] \<and>
   getAlertHistory connected storeA1 (noFilters\<lparr>f_userId := Some 2\<rparr>) 100 = []"
proof -
  have a: "getAlertHistory connected storeA1 (noFilters\<lparr>f_userId := None\<rparr>) 100 = [docA1]"
    by (simp add: getAlertHistory_def connected_def storeA1_def noFilters_def buildQuery_def
          truthyString_def truthyNumber_def truthyDate_def emptyQuery_def matches_def Let_def)
  have b: "getAlertHistory connected storeA1 (noFilters\<lparr>f_userId := Some 2\<rparr>) 100 = []"
    by (simp add: getAlertHistory_def connected_def storeA1_def noFilters_def buildQuery_def
          truthyString_def truthyNumber_def truthyDate_def emptyQuery_def matches_def Let_def
          docA1_def alertA1_def Alert.defs AlertDocument.defs)
  have c: "a_userId docA1 = 1"
    by (simp add: docA1_def alertA1_def Alert.defs AlertDocument.defs)
  from falsy_filters_ignored [of noFilters connected storeA1 100] a b c
  show ?thesis by simp
qed

end
